theory Spec2Isabelle
  imports Complex_Main
begin

section \<open>Python values, errors and effects\<close>

text \<open>
  A sympy \<open>Symbol\<close> is identified by its name. Python's \<open>int\<close> and \<open>float\<close> are both read
  as real numbers and \<open>complex\<close> as a complex number: rounding of floating-point arithmetic is
  outside this development. Exceptions are values of \<open>error\<close>; what the program prints or
  hands to a renderer is recorded as a list of \<open>event\<close>s, in the order it happens:
  \<open>Evaluated n\<close> is a call of the numeric function on arrays of \<open>n\<close> grid points,
  \<open>PrintedWarning\<close> the line printed by the planar extractor (in English: "warning: the
  function returns complex values, only the real part is drawn"), \<open>Rendered s\<close> the
  interactive scene shown with axis scales \<open>s\<close>.
\<close>

type_synonym symbol = string

datatype scalar = PyFloat real | PyComplex complex

datatype error =
    ValueError
  | ZeroDivisionError
  | TypeError
  | SyntaxError
  | AttributeError

datatype event =
    Evaluated nat
  | PrintedWarning
  | Rendered "real \<times> real \<times> real"

section \<open>The parameter space (my\_dtypes.py)\<close>

text \<open>
  \<open>ParamSpace3D\<close> is a frozen dataclass with ten fields. The field \<open>fixed_param\<close> is typed as a
  dictionary but defaults to \<open>None\<close>, so it is an optional association list here.
\<close>

record ParamSpace3D =
  x :: symbol
  x_range :: "real \<times> real"
  y :: symbol
  y_range :: "real \<times> real"
  z :: symbol
  z_range :: "real \<times> real"
  x_resolution :: int
  y_resolution :: int
  z_resolution :: int
  fixed_param :: "(symbol \<times> scalar) list option"

text \<open>
  The generated constructor: the six axis fields are required, the three resolutions default
  to 50 and \<open>fixed_param\<close> to \<open>None\<close>. An omitted keyword argument is \<open>None\<close> below. The
  constructor checks nothing.
\<close>

definition new_ParamSpace3D ::
  "symbol \<Rightarrow> real \<times> real \<Rightarrow> symbol \<Rightarrow> real \<times> real \<Rightarrow> symbol \<Rightarrow> real \<times> real \<Rightarrow>
   int option \<Rightarrow> int option \<Rightarrow> int option \<Rightarrow> (symbol \<times> scalar) list option \<Rightarrow> ParamSpace3D" where
  "new_ParamSpace3D sx rx sy ry sz rz resx resy resz fixed =
     \<lparr> x = sx, x_range = rx, y = sy, y_range = ry, z = sz, z_range = rz,
       x_resolution = (case resx of None \<Rightarrow> 50 | Some n \<Rightarrow> n),
       y_resolution = (case resy of None \<Rightarrow> 50 | Some n \<Rightarrow> n),
       z_resolution = (case resz of None \<Rightarrow> 50 | Some n \<Rightarrow> n),
       fixed_param = fixed \<rparr>"

section \<open>The numpy operations the program calls\<close>

text \<open>
  An \<open>ndarray\<close> is a shape, a flag for a complex dtype and its elements in C order (last index
  fastest). A Python number is the array of shape \<open>[]\<close> with one element, which is how numpy
  treats it in arithmetic, \<open>np.real\<close>, \<open>np.imag\<close> and \<open>np.iscomplexobj\<close>; the program itself never
  makes a numpy array of shape \<open>[]\<close>, so that shape always is a Python number.
\<close>

record ndarray =
  shape :: "nat list"
  is_complex :: bool
  elems :: "complex list"

text \<open>
  What a numeric function returns is either numeric or made of Python objects: a sympy
  expression, or an array (of the given shape) of them with dtype \<open>object\<close>. Such objects are
  not numbers to numpy; what they hold is not represented.
\<close>

datatype npvalue = Numeric ndarray | Objects "nat list"

type_synonym compiled = "ndarray list \<Rightarrow> error + npvalue"

definition np_shape :: "npvalue \<Rightarrow> nat list" where
  "np_shape v = (case v of Numeric a \<Rightarrow> shape a | Objects s \<Rightarrow> s)"


definition linspace :: "real \<Rightarrow> real \<Rightarrow> int \<Rightarrow> error + real list" where
  "linspace start stop num =
     (if num < 0 then Inl ValueError
      else
        let dv = num - 1;
            delta = stop - start;
            ys = map (\<lambda>i. if dv > 0 then real i * (delta / of_int dv) + start
                           else real i * delta + start) [0..<nat num]
        in Inr (if num > 1 then ys[nat num - 1 := stop] else ys))"

definition meshgrid_ij :: "real list \<Rightarrow> real list \<Rightarrow> real list \<Rightarrow> ndarray \<times> ndarray \<times> ndarray" where
  "meshgrid_ij xs ys zs =
     (let shp = [length xs, length ys, length zs] in
      (\<lparr> shape = shp, is_complex = False, elems = [complex_of_real a. a \<leftarrow> xs, b \<leftarrow> ys, c \<leftarrow> zs] \<rparr>,
       \<lparr> shape = shp, is_complex = False, elems = [complex_of_real b. a \<leftarrow> xs, b \<leftarrow> ys, c \<leftarrow> zs] \<rparr>,
       \<lparr> shape = shp, is_complex = False, elems = [complex_of_real c. a \<leftarrow> xs, b \<leftarrow> ys, c \<leftarrow> zs] \<rparr>))"

text \<open>
  \<open>np.real\<close> and \<open>np.imag\<close> take the parts elementwise; of objects they give objects again
  (the array itself, and an object array of zeros). \<open>np.iscomplexobj\<close> looks at the dtype only.
\<close>

definition np_real :: "npvalue \<Rightarrow> npvalue" where
  "np_real v =
     (case v of
        Numeric a \<Rightarrow>
          Numeric \<lparr> shape = shape a, is_complex = False,
                    elems = map (\<lambda>c. complex_of_real (Re c)) (elems a) \<rparr>
      | Objects s \<Rightarrow> Objects s)"

definition np_imag :: "npvalue \<Rightarrow> npvalue" where
  "np_imag v =
     (case v of
        Numeric a \<Rightarrow>
          Numeric \<lparr> shape = shape a, is_complex = False,
                    elems = map (\<lambda>c. complex_of_real (Im c)) (elems a) \<rparr>
      | Objects s \<Rightarrow> Objects s)"

definition np_iscomplexobj :: "npvalue \<Rightarrow> bool" where
  "np_iscomplexobj v = (case v of Numeric a \<Rightarrow> is_complex a | Objects s \<Rightarrow> False)"

text \<open>
  \<open>flatten(order="F")\<close> lists the elements with the first index fastest. \<open>c_offset\<close> is the
  position of a multi-index in the C-order element list, \<open>f_indices\<close> enumerates the
  multi-indices of a shape in Fortran order.
\<close>

fun c_offset :: "nat list \<Rightarrow> nat list \<Rightarrow> nat" where
  "c_offset (d # ds) (i # js) = i * prod_list ds + c_offset ds js"
| "c_offset _ _ = 0"

fun f_indices :: "nat list \<Rightarrow> nat list list" where
  "f_indices [] = [[]]"
| "f_indices (d # ds) = [i # js. js \<leftarrow> f_indices ds, i \<leftarrow> [0..<d]]"

definition flatten_F :: "ndarray \<Rightarrow> ndarray" where
  "flatten_F a =
     \<lparr> shape = [prod_list (shape a)], is_complex = is_complex a,
       elems = map (\<lambda>idx. elems a ! c_offset (shape a) idx) (f_indices (shape a)) \<rparr>"

section \<open>The pyvista operations the program calls\<close>

text \<open>
  An \<open>ImageData\<close> is a regular lattice: its dimensions, origin and spacing, and named arrays
  attached to its points or to its cells. VTK numbers the lattice points with the first axis
  fastest and places point \<open>(i, j, k)\<close> at origin plus index times spacing.
\<close>

record image_data =
  dimensions :: "int \<times> int \<times> int"
  origin :: "real \<times> real \<times> real"
  spacing :: "real \<times> real \<times> real"
  point_data :: "string \<rightharpoonup> real list"
  cell_data :: "string \<rightharpoonup> real list"

definition n_points :: "image_data \<Rightarrow> nat" where
  "n_points g = (case dimensions g of (nx, ny, nz) \<Rightarrow> nat nx * nat ny * nat nz)"

definition n_cells :: "image_data \<Rightarrow> nat" where
  "n_cells g =
     (case dimensions g of (nx, ny, nz) \<Rightarrow>
        if nx \<le> 0 \<or> ny \<le> 0 \<or> nz \<le> 0 then 0
        else (if nx > 1 then nat (nx - 1) else 1) * (if ny > 1 then nat (ny - 1) else 1)
             * (if nz > 1 then nat (nz - 1) else 1))"

definition point_id :: "int \<times> int \<times> int \<Rightarrow> nat \<times> nat \<times> nat \<Rightarrow> nat" where
  "point_id dims p =
     (case dims of (nx, ny, nz) \<Rightarrow> case p of (i, j, k) \<Rightarrow> i + nat nx * (j + nat ny * k))"

definition point_coords :: "image_data \<Rightarrow> nat \<times> nat \<times> nat \<Rightarrow> real \<times> real \<times> real" where
  "point_coords g p =
     (case origin g of (ox, oy, oz) \<Rightarrow> case spacing g of (sx, sy, sz) \<Rightarrow> case p of (i, j, k) \<Rightarrow>
        (ox + real i * sx, oy + real j * sy, oz + real k * sz))"

text \<open>
  \<open>grid[name] = array\<close>: an array with one entry per point becomes point data, one with one
  entry per cell becomes cell data, any other length is refused.
\<close>

definition set_item :: "image_data \<Rightarrow> string \<Rightarrow> ndarray \<Rightarrow> error + image_data" where
  "set_item g name a =
     (if length (elems a) = n_points g
        then Inr (g\<lparr> point_data := (point_data g)(name \<mapsto> map Re (elems a)) \<rparr>)
      else if length (elems a) = n_cells g
        then Inr (g\<lparr> cell_data := (cell_data g)(name \<mapsto> map Re (elems a)) \<rparr>)
      else Inl ValueError)"

text \<open>
  The contour filter, the mesh intersection filter and the renderer are VTK's and are
  parameters of the development, with \<open>'m\<close> the type of a \<open>PolyData\<close> mesh; each may fail.
  \<open>show_scene\<close> stands for the whole plotting block (the plotter, the curve, the bounding
  box, the axes and \<open>show\<close>), given the curve and the axis scales. \<open>attach_objects\<close> stands
  for what flattening a value made of Python objects and storing it as a named field does.
  \<open>intersection\<close> is pyvista's wrapper: it returns the intersection lines and the two input
  surfaces, each split along the lines only when the corresponding flag is set.
\<close>

record 'm pyvista =
  contour :: "image_data \<Rightarrow> real list \<Rightarrow> string \<Rightarrow> error + 'm"
  intersection_lines :: "'m \<Rightarrow> 'm \<Rightarrow> error + 'm"
  split_mesh :: "'m \<Rightarrow> 'm \<Rightarrow> 'm"
  show_scene :: "'m \<Rightarrow> real \<times> real \<times> real \<Rightarrow> error + unit"
  attach_objects :: "image_data \<Rightarrow> string \<Rightarrow> nat list \<Rightarrow> error + image_data"

definition intersection :: "'m pyvista \<Rightarrow> 'm \<Rightarrow> 'm \<Rightarrow> bool \<Rightarrow> bool \<Rightarrow> error + ('m \<times> 'm \<times> 'm)" where
  "intersection lib a b split_first split_second =
     (case intersection_lines lib a b of
        Inl e \<Rightarrow> Inl e
      | Inr c \<Rightarrow> Inr (c, if split_first then split_mesh lib a c else a,
                        if split_second then split_mesh lib b c else b))"

section \<open>The volumetric extractor (space\_curve.py)\<close>

definition py_div :: "real \<Rightarrow> int \<Rightarrow> error + real" where
  "py_div a b = (if b = 0 then Inl ZeroDivisionError else Inr (a / of_int b))"

text \<open>The three \<open>np.linspace\<close> calls and \<open>np.meshgrid(x, y, z, indexing="ij")\<close>.\<close>

definition coordinate_mesh :: "ParamSpace3D \<Rightarrow> error + (ndarray \<times> ndarray \<times> ndarray)" where
  "coordinate_mesh ps =
     (case linspace (fst (x_range ps)) (snd (x_range ps)) (x_resolution ps) of
        Inl e \<Rightarrow> Inl e
      | Inr xs \<Rightarrow>
     (case linspace (fst (y_range ps)) (snd (y_range ps)) (y_resolution ps) of
        Inl e \<Rightarrow> Inl e
      | Inr ys \<Rightarrow>
     (case linspace (fst (z_range ps)) (snd (z_range ps)) (z_resolution ps) of
        Inl e \<Rightarrow> Inl e
      | Inr zs \<Rightarrow> Inr (meshgrid_ij xs ys zs))))"

text \<open>
  \<open>grid[name] = part.flatten(order="F")\<close>: a Python number has no method \<open>flatten\<close>, an
  array is flattened and stored, objects are left to the library.
\<close>

definition attach_field :: "'m pyvista \<Rightarrow> image_data \<Rightarrow> string \<Rightarrow> npvalue \<Rightarrow> error + image_data" where
  "attach_field lib grid name part =
     (case part of
        Numeric a \<Rightarrow> if shape a = [] then Inl AttributeError else set_item grid name (flatten_F a)
      | Objects s \<Rightarrow> attach_objects lib grid name s)"

text \<open>
  From \<open>np.real(values)\<close> to \<open>grid["imag"] = ...\<close>: the real and imaginary parts, the
  \<open>ImageData\<close> with its dimensions, origin and spacing, and the two flattened fields. The
  three spacings are computed first; pyvista then refuses a negative spacing with a
  \<open>ValueError\<close>.
\<close>

definition structured_grid :: "'m pyvista \<Rightarrow> ParamSpace3D \<Rightarrow> npvalue \<Rightarrow> error + image_data" where
  "structured_grid lib ps values =
     (let x_len = snd (x_range ps) - fst (x_range ps);
          y_len = snd (y_range ps) - fst (y_range ps);
          z_len = snd (z_range ps) - fst (z_range ps);
          real_part = np_real values;
          imag_part = np_imag values
      in
      (case py_div x_len (x_resolution ps - 1) of Inl e \<Rightarrow> Inl e | Inr sx \<Rightarrow>
      (case py_div y_len (y_resolution ps - 1) of Inl e \<Rightarrow> Inl e | Inr sy \<Rightarrow>
      (case py_div z_len (z_resolution ps - 1) of Inl e \<Rightarrow> Inl e | Inr sz \<Rightarrow>
      (if min sx (min sy sz) < 0 then Inl ValueError
       else
         (let grid = \<lparr> dimensions = (x_resolution ps, y_resolution ps, z_resolution ps),
                       origin = (fst (x_range ps), fst (y_range ps), fst (z_range ps)),
                       spacing = (sx, sy, sz),
                       point_data = Map.empty, cell_data = Map.empty \<rparr>
          in
          (case attach_field lib grid ''real'' real_part of Inl e \<Rightarrow> Inl e | Inr grid1 \<Rightarrow>
             attach_field lib grid1 ''imag'' imag_part)))))))"

text \<open>
  The first half of \<open>vis_complex_equation\<close>: sample the function over the mesh and build the
  grid. The function is called once, on the three coordinate arrays.
\<close>

definition sampled_grid ::
  "'m pyvista \<Rightarrow> compiled \<Rightarrow> ParamSpace3D \<Rightarrow> event list \<times> (error + image_data)" where
  "sampled_grid lib numpy_func ps =
     (case coordinate_mesh ps of
        Inl e \<Rightarrow> ([], Inl e)
      | Inr (coord_x_mat, coord_y_mat, coord_z_mat) \<Rightarrow>
          ([Evaluated (length (elems coord_x_mat))],
           case numpy_func [coord_x_mat, coord_y_mat, coord_z_mat] of
             Inl e \<Rightarrow> Inl e
           | Inr values \<Rightarrow> structured_grid lib ps values))"

definition py_max3 :: "real \<Rightarrow> real \<Rightarrow> real \<Rightarrow> real" where
  "py_max3 a b c = max (max a b) c"

definition plot_scale :: "ParamSpace3D \<Rightarrow> real \<times> real \<times> real" where
  "plot_scale ps =
     (let x_len = snd (x_range ps) - fst (x_range ps);
          y_len = snd (y_range ps) - fst (y_range ps);
          z_len = snd (z_range ps) - fst (z_range ps);
          max_len = py_max3 x_len y_len z_len
      in (if x_len \<noteq> 0 then max_len / x_len else 1,
          if y_len \<noteq> 0 then max_len / y_len else 1,
          if z_len \<noteq> 0 then max_len / z_len else 1))"

definition vis_complex_equation ::
  "'m pyvista \<Rightarrow> compiled \<Rightarrow> ParamSpace3D \<Rightarrow> bool \<Rightarrow> event list \<times> (error + ('m \<times> 'm \<times> 'm))" where
  "vis_complex_equation lib numpy_func param_space plot =
     (case sampled_grid lib numpy_func param_space of
        (evs, Inl e) \<Rightarrow> (evs, Inl e)
      | (evs, Inr grid) \<Rightarrow>
     (case contour lib grid [0] ''real'' of
        Inl e \<Rightarrow> (evs, Inl e)
      | Inr real_contour \<Rightarrow>
     (case contour lib grid [0] ''imag'' of
        Inl e \<Rightarrow> (evs, Inl e)
      | Inr imag_contour \<Rightarrow>
     (case intersection lib real_contour imag_contour False False of
        Inl e \<Rightarrow> (evs, Inl e)
      | Inr (curve, first_face, second_face) \<Rightarrow>
          (if plot then
             (case show_scene lib curve (plot_scale param_space) of
                Inl e \<Rightarrow> (evs, Inl e)
              | Inr u \<Rightarrow> (evs @ [Rendered (plot_scale param_space)],
                          Inr (curve, first_face, second_face)))
           else (evs, Inr (curve, first_face, second_face)))))))"

section \<open>The sympy operations the program calls\<close>

text \<open>
  Expressions are opaque to the program, which only substitutes into them and lowers them to
  numeric functions. To run both, expressions are polynomials in expanded form with complex
  coefficients: a list of terms, each a monomial (its symbols, repeated by their power) with
  a coefficient. sympy evaluates every expression when it is built: terms with the same
  monomial are added up and terms whose coefficient is zero disappear. \<open>collect_terms\<close> does
  that, and every operation reads an expression through it.
\<close>

datatype expr = Poly "(symbol list \<times> complex) list"

definition same_monomial :: "symbol list \<Rightarrow> symbol list \<Rightarrow> bool" where
  "same_monomial m m' = (\<forall>s \<in> set (m @ m'). count_list m s = count_list m' s)"

fun add_term :: "symbol list \<times> complex \<Rightarrow> (symbol list \<times> complex) list \<Rightarrow> (symbol list \<times> complex) list" where
  "add_term t [] = [t]"
| "add_term t (u # us) =
     (if same_monomial (fst t) (fst u) then (fst u, snd u + snd t) # us else u # add_term t us)"

definition collect_terms :: "(symbol list \<times> complex) list \<Rightarrow> (symbol list \<times> complex) list" where
  "collect_terms ts = filter (\<lambda>t. snd t \<noteq> 0) (fold add_term ts [])"

fun free_symbols :: "expr \<Rightarrow> symbol set" where
  "free_symbols (Poly ts) = (\<Union>t \<in> set (collect_terms ts). set (fst t))"

definition scalar_value :: "scalar \<Rightarrow> complex" where
  "scalar_value c = (case c of PyFloat r \<Rightarrow> complex_of_real r | PyComplex v \<Rightarrow> v)"

text \<open>
  Substitution of a dictionary of numbers: in every term the symbols that are keys are
  replaced by their values, which go into the coefficient, and the result is evaluated
  again.
\<close>

definition subs_term :: "(symbol \<times> scalar) list \<Rightarrow> symbol list \<times> complex \<Rightarrow> symbol list \<times> complex" where
  "subs_term m t =
     (filter (\<lambda>s. map_of m s = None) (fst t),
      snd t * prod_list (map (\<lambda>s. case map_of m s of None \<Rightarrow> 1 | Some v \<Rightarrow> scalar_value v) (fst t)))"

fun subs_dict :: "(symbol \<times> scalar) list \<Rightarrow> expr \<Rightarrow> expr" where
  "subs_dict m (Poly ts) = Poly (collect_terms (map (subs_term m) ts))"

text \<open>
  \<open>expr.subs(arg)\<close> with a single argument: a dictionary of replacements is applied, an
  argument that is not iterable (such as \<open>None\<close>) is refused with a \<open>ValueError\<close>.
\<close>

definition subs :: "expr \<Rightarrow> (symbol \<times> scalar) list option \<Rightarrow> error + expr" where
  "subs e arg = (case arg of None \<Rightarrow> Inl ValueError | Some m \<Rightarrow> Inr (subs_dict m e))"

definition np_scalar :: "scalar \<Rightarrow> ndarray" where
  "np_scalar c =
     (case c of
        PyFloat r \<Rightarrow> \<lparr> shape = [], is_complex = False, elems = [complex_of_real r] \<rparr>
      | PyComplex v \<Rightarrow> \<lparr> shape = [], is_complex = True, elems = [v] \<rparr>)"

text \<open>
  An elementwise binary operation of numpy. Two arrays of one shape are combined position by
  position and a number is combined with every element of an array; the result is complex
  when an operand is. The program only ever combines the arrays of one meshgrid with
  numbers; general broadcasting between arrays of different shapes is not part of the
  development, and \<open>ValueError\<close> (numpy's answer for shapes that cannot be broadcast) stands
  for it.
\<close>

definition np_binop :: "(complex \<Rightarrow> complex \<Rightarrow> complex) \<Rightarrow> ndarray \<Rightarrow> ndarray \<Rightarrow> error + ndarray" where
  "np_binop f u v =
     (if shape u = shape v then
        Inr \<lparr> shape = shape u, is_complex = (is_complex u \<or> is_complex v),
              elems = map (\<lambda>(a, b). f a b) (zip (elems u) (elems v)) \<rparr>
      else if shape u = [] then
        Inr \<lparr> shape = shape v, is_complex = (is_complex u \<or> is_complex v),
              elems = map (\<lambda>b. f (hd (elems u)) b) (elems v) \<rparr>
      else if shape v = [] then
        Inr \<lparr> shape = shape u, is_complex = (is_complex u \<or> is_complex v),
              elems = map (\<lambda>a. f a (hd (elems v))) (elems u) \<rparr>
      else Inl ValueError)"

text \<open>
  The same operation on what a numeric function computes with: when an operand is made of
  objects the result is, with the shape the operands give together.
\<close>

definition np_op :: "(complex \<Rightarrow> complex \<Rightarrow> complex) \<Rightarrow> npvalue \<Rightarrow> npvalue \<Rightarrow> error + npvalue" where
  "np_op f u v =
     (case (u, v) of
        (Numeric a, Numeric b) \<Rightarrow>
          (case np_binop f a b of Inl e \<Rightarrow> Inl e | Inr c \<Rightarrow> Inr (Numeric c))
      | _ \<Rightarrow>
          (if np_shape u = np_shape v \<or> np_shape v = [] then Inr (Objects (np_shape u))
           else if np_shape u = [] then Inr (Objects (np_shape v))
           else Inl ValueError))"

text \<open>
  The body of a function generated by \<open>lambdify\<close>, run in an environment binding the
  parameter names to the arguments. \<open>lambdify\<close> puts every symbol of the expression into the
  namespace of the generated function, bound to itself: a symbol that is not a parameter is
  no undefined name, it evaluates to the sympy symbol, an object. A coefficient is a complex
  number for numpy when its imaginary part is not zero. The value of a term is its
  coefficient times its symbols' values, the value of the expression the sum of its terms.
\<close>

definition np_number :: "complex \<Rightarrow> ndarray" where
  "np_number c = \<lparr> shape = [], is_complex = (Im c \<noteq> 0), elems = [c] \<rparr>"

definition lookup :: "(symbol \<rightharpoonup> ndarray) \<Rightarrow> symbol \<Rightarrow> npvalue" where
  "lookup env s = (case env s of None \<Rightarrow> Objects [] | Some a \<Rightarrow> Numeric a)"

fun term_value :: "(symbol \<rightharpoonup> ndarray) \<Rightarrow> symbol list \<Rightarrow> npvalue \<Rightarrow> error + npvalue" where
  "term_value env [] acc = Inr acc"
| "term_value env (s # ss) acc =
     (case np_op (*) acc (lookup env s) of Inl e \<Rightarrow> Inl e | Inr v \<Rightarrow> term_value env ss v)"

fun sum_terms :: "(symbol \<rightharpoonup> ndarray) \<Rightarrow> (symbol list \<times> complex) list \<Rightarrow> npvalue \<Rightarrow> error + npvalue" where
  "sum_terms env [] acc = Inr acc"
| "sum_terms env (t # ts) acc =
     (case term_value env (fst t) (Numeric (np_number (snd t))) of
        Inl e \<Rightarrow> Inl e
      | Inr v \<Rightarrow> (case np_op (+) acc v of Inl e \<Rightarrow> Inl e | Inr w \<Rightarrow> sum_terms env ts w))"

fun np_eval :: "(symbol \<rightharpoonup> ndarray) \<Rightarrow> expr \<Rightarrow> error + npvalue" where
  "np_eval env (Poly ts) = sum_terms env (collect_terms ts) (Numeric (np_number 0))"

text \<open>
  \<open>lambdify(params, e, modules=["numpy"])\<close> generates and compiles a Python function with the
  given parameter names: a repeated name is a \<open>SyntaxError\<close> at that moment, a call with the
  wrong number of arguments a \<open>TypeError\<close>. The expression's free symbols are not checked.
\<close>

definition lambdify :: "symbol list \<Rightarrow> expr \<Rightarrow> error + compiled" where
  "lambdify params e =
     (if \<not> distinct params then Inl SyntaxError
      else Inr (\<lambda>args. if length args \<noteq> length params then Inl TypeError
                       else np_eval (map_of (zip params args)) e))"

section \<open>The expression compiler (numerical.py)\<close>

definition get_numpy_func :: "expr \<Rightarrow> ParamSpace3D \<Rightarrow> error + compiled" where
  "get_numpy_func e param_space =
     (case subs e (fixed_param param_space) of
        Inl err \<Rightarrow> Inl err
      | Inr expr_substituted \<Rightarrow>
          (let params = [x param_space, y param_space, z param_space]
           in lambdify params expr_substituted))"

section \<open>The planar extractor (my\_plots.py)\<close>

text \<open>
  A dictionary \<open>fixed_params\<close> is an association list in insertion order; its keys are
  distinct. \<open>np.meshgrid(x, y)\<close> uses the default indexing: both arrays have one row per
  element of \<open>y\<close> and one column per element of \<open>x\<close>.
\<close>

definition meshgrid_xy :: "real list \<Rightarrow> real list \<Rightarrow> ndarray \<times> ndarray" where
  "meshgrid_xy xs ys =
     (let shp = [length ys, length xs] in
      (\<lparr> shape = shp, is_complex = False, elems = [complex_of_real a. b \<leftarrow> ys, a \<leftarrow> xs] \<rparr>,
       \<lparr> shape = shp, is_complex = False, elems = [complex_of_real b. b \<leftarrow> ys, a \<leftarrow> xs] \<rparr>))"

text \<open>
  The loop over \<open>all_params\<close>: every parameter other than the two axis symbols is looked up
  in \<open>fixed_params\<close> and appended, with its value, to the two accumulators.
\<close>

fun collect_params ::
  "symbol \<Rightarrow> symbol \<Rightarrow> (symbol \<times> scalar) list \<Rightarrow> symbol list \<Rightarrow> symbol list \<times> scalar list \<Rightarrow>
   error + (symbol list \<times> scalar list)" where
  "collect_params param_x param_y fixed_params [] acc = Inr acc"
| "collect_params param_x param_y fixed_params (param # rest) (lambda_params, fixed_values) =
     (if param \<notin> set [param_x, param_y] then
        (if param \<notin> set (map fst fixed_params) then Inl ValueError
         else collect_params param_x param_y fixed_params rest
                (lambda_params @ [param], fixed_values @ [the (map_of fixed_params param)]))
      else collect_params param_x param_y fixed_params rest (lambda_params, fixed_values))"

text \<open>
  From the parameter list to the sampled field \<open>Z\<close>: the numeric function, the grid and the
  one call of the function on it. The result is \<open>(X, Y, Z)\<close>.
\<close>

definition sample_plane ::
  "expr \<Rightarrow> symbol \<Rightarrow> symbol \<Rightarrow> real \<times> real \<Rightarrow> real \<times> real \<Rightarrow> (symbol \<times> scalar) list \<Rightarrow> int \<Rightarrow>
   event list \<times> (error + (ndarray \<times> ndarray \<times> npvalue))" where
  "sample_plane func param_x param_y x_range' y_range' fixed_params resolution =
     (let all_params = [param_x, param_y] @ map fst fixed_params in
      (case collect_params param_x param_y fixed_params all_params ([param_x, param_y], []) of
         Inl e \<Rightarrow> ([], Inl e)
       | Inr (lambda_params, fixed_values) \<Rightarrow>
      (case lambdify lambda_params func of
         Inl e \<Rightarrow> ([], Inl e)
       | Inr func_numeric \<Rightarrow>
      (case linspace (fst x_range') (snd x_range') resolution of
         Inl e \<Rightarrow> ([], Inl e)
       | Inr xs \<Rightarrow>
      (case linspace (fst y_range') (snd y_range') resolution of
         Inl e \<Rightarrow> ([], Inl e)
       | Inr ys \<Rightarrow>
      (case meshgrid_xy xs ys of (X, Y) \<Rightarrow>
         ([Evaluated (length (elems X))],
          (case func_numeric ([X, Y] @ map np_scalar fixed_values) of
             Inl e \<Rightarrow> Inl e
           | Inr Z \<Rightarrow> Inr (X, Y, Z)))))))))"

text \<open>
  \<open>plot_zero_contours\<close>. The contouring of matplotlib is a parameter, with \<open>'c\<close> the type of
  the figure and axes it draws into; labels, title and styling do not enter the result.
\<close>

definition plot_zero_contours ::
  "(ndarray \<Rightarrow> ndarray \<Rightarrow> npvalue \<Rightarrow> real list \<Rightarrow> error + 'c) \<Rightarrow>
   expr \<Rightarrow> symbol \<Rightarrow> symbol \<Rightarrow> real \<times> real \<Rightarrow> real \<times> real \<Rightarrow> (symbol \<times> scalar) list \<Rightarrow> int \<Rightarrow>
   real list \<Rightarrow> event list \<times> (error + 'c)" where
  "plot_zero_contours ax_contour func param_x param_y x_range' y_range' fixed_params resolution levels =
     (case sample_plane func param_x param_y x_range' y_range' fixed_params resolution of
        (evs, Inl e) \<Rightarrow> (evs, Inl e)
      | (evs, Inr (X, Y, Z)) \<Rightarrow>
          (if np_iscomplexobj Z
           then (evs @ [PrintedWarning], ax_contour X Y (np_real Z) levels)
           else (evs, ax_contour X Y Z levels)))"

text \<open>
  A compiled function in the sense of the data model: a pure function applied elementwise to
  three arrays of one shape, with complex results.
\<close>

definition vectorize3 :: "(real \<Rightarrow> real \<Rightarrow> real \<Rightarrow> complex) \<Rightarrow> compiled" where
  "vectorize3 f args =
     (case args of
        [A, B, C] \<Rightarrow>
          Inr (Numeric \<lparr> shape = shape A, is_complex = True,
                         elems = map (\<lambda>(a, b, c). f (Re a) (Re b) (Re c))
                                     (zip (elems A) (zip (elems B) (elems C))) \<rparr>)
      | _ \<Rightarrow> Inl TypeError)"

text \<open>The \<open>i\<close>-th of \<open>n\<close> evenly spaced coordinates of an axis with the given range.\<close>

definition axis_coord :: "real \<times> real \<Rightarrow> int \<Rightarrow> nat \<Rightarrow> real" where
  "axis_coord r n i = fst r + real i * ((snd r - fst r) / of_int (n - 1))"

text \<open>
  The value that a named point array of a grid holds at the lattice point with the given
  axis indices, if there is one.
\<close>

definition field_at :: "image_data \<Rightarrow> string \<Rightarrow> nat \<times> nat \<times> nat \<Rightarrow> real option" where
  "field_at g name p =
     (case point_data g name of
        None \<Rightarrow> None
      | Some a \<Rightarrow> if point_id (dimensions g) p < length a
                  then Some (a ! point_id (dimensions g) p) else None)"

section \<open>Example inputs\<close>

text \<open>
  A parameter space that is not cubic (2 by 3 by 2 points) and a function whose value tells
  the three coordinates apart.
\<close>

definition example_space :: ParamSpace3D where
  "example_space =
     new_ParamSpace3D ''a'' (0, 1) ''b'' (0, 2) ''c'' (0, 3) (Some 2) (Some 3) (Some 2) (Some [])"

definition example_fun :: "real \<Rightarrow> real \<Rightarrow> real \<Rightarrow> complex" where
  "example_fun a b c = Complex (a + 10 * b + 100 * c) (a - b)"

text \<open>
  Stand-ins for the VTK filters, on meshes that are lists of numbers, and a parameter space
  with a single sample on its first axis.
\<close>

definition example_lib :: "(real list) pyvista" where
  "example_lib =
     \<lparr> contour = (\<lambda>g levels name. Inr (case point_data g name of None \<Rightarrow> [] | Some a \<Rightarrow> a)),
       intersection_lines = (\<lambda>a b. Inr (filter (\<lambda>v. v \<in> set b) a)),
       split_mesh = (\<lambda>a c. a),
       show_scene = (\<lambda>c s. Inr ()),
       attach_objects = (\<lambda>g name s. Inl TypeError) \<rparr>"

definition degenerate_space :: ParamSpace3D where
  "degenerate_space =
     new_ParamSpace3D ''a'' (0, 1) ''b'' (0, 2) ''c'' (0, 3) (Some 1) (Some 3) (Some 2) (Some [])"

text \<open>
  A stand-in for matplotlib's contouring, which returns the field it is given, and an
  expression with a symbol \<open>q\<close> that is neither an axis of \<open>example_space\<close> nor fixed.
\<close>

definition example_contour :: "ndarray \<Rightarrow> ndarray \<Rightarrow> npvalue \<Rightarrow> real list \<Rightarrow> error + real list" where
  "example_contour X Y Z levels =
     (case Z of Numeric a \<Rightarrow> Inr (map Re (elems a)) | Objects s \<Rightarrow> Inl TypeError)"


definition zero_array :: ndarray where
  "zero_array = np_scalar (PyFloat 0)"

text \<open>
  Parameter spaces in which axis symbols are also keys of the fixed parameters, the sum of
  the first two axis symbols, and the complex expression \<open>(a + \<i> b) - (1 + \<i>)\<close>.
\<close>

definition conflicting_space :: ParamSpace3D where
  "conflicting_space =
     new_ParamSpace3D ''a'' (0, 1) ''b'' (0, 2) ''c'' (0, 3) (Some 2) (Some 3) (Some 2)
       (Some [(''a'', PyFloat 2)])"

definition all_fixed_space :: ParamSpace3D where
  "all_fixed_space =
     new_ParamSpace3D ''a'' (0, 1) ''b'' (0, 2) ''c'' (0, 3) (Some 2) (Some 3) (Some 2)
       (Some [(''a'', PyFloat 2), (''b'', PyFloat 3), (''c'', PyFloat 4)])"

definition sum_example :: expr where
  "sum_example = Poly [([''a''], 1), ([''b''], 1)]"

definition complex_example :: expr where
  "complex_example = Poly [([''a''], 1), ([''b''], \<i>), ([], Complex (- 1) (- 1))]"

text \<open>
  The space \<open>example_space\<close> with the range of its first axis reversed, and the product of
  a symbol \<open>k\<close> with the symbol \<open>q\<close>.
\<close>

definition reversed_space :: ParamSpace3D where
  "reversed_space =
     new_ParamSpace3D ''a'' (1, 0) ''b'' (0, 2) ''c'' (0, 3) (Some 2) (Some 3) (Some 2) (Some [])"

definition product_example :: expr where
  "product_example = Poly [([''k'', ''q''], 1)]"

section \<open>Lists laid out as tables\<close>

lemma nth_concat_uniform:
  "\<forall>l \<in> set xss. length l = n \<Longrightarrow> b < length xss \<Longrightarrow> a < n \<Longrightarrow>
   concat xss ! (b * n + a) = xss ! b ! a"
proof (induction xss arbitrary: b)
  case Nil
  then show ?case by simp
next
  case (Cons l xss)
  show ?case
  proof (cases b)
    case 0
    with Cons.prems show ?thesis by (simp add: nth_append)
  next
    case (Suc b')
    with Cons.prems have "concat xss ! (b' * n + a) = xss ! b' ! a"
      by (intro Cons.IH) auto
    moreover have "length l = n" using Cons.prems by simp
    ultimately show ?thesis using Suc by (simp add: nth_append)
  qed
qed

lemma length_concat_uniform:
  "\<forall>l \<in> set xss. length l = n \<Longrightarrow> length (concat xss) = length xss * n"
  by (induction xss) auto

lemma linspace_ok:
  assumes "2 \<le> n"
  shows "linspace (fst r) (snd r) n = Inr (map (axis_coord r n) [0..<nat n])"
proof -
  let ?ys = "map (\<lambda>i. real i * ((snd r - fst r) / of_int (n - 1)) + fst r) [0..<nat n]"
  have last: "axis_coord r n (nat n - 1) = snd r"
    using assms by (simp add: axis_coord_def of_nat_diff)
  have "?ys[nat n - 1 := snd r] = map (axis_coord r n) [0..<nat n]"
    using assms last by (auto simp: list_eq_iff_nth_eq nth_list_update axis_coord_def add.commute)
  then show ?thesis using assms by (simp add: linspace_def Let_def)
qed


lemma nth_mesh3:
  assumes "i < length xs" "j < length ys" "k < length zs"
  shows "concat (map (\<lambda>a. concat (map (\<lambda>b. map (\<lambda>c. g a b c) zs) ys)) xs)
           ! (i * (length ys * length zs) + (j * length zs + k)) = g (xs ! i) (ys ! j) (zs ! k)"
proof -
  have inner: "\<And>a. concat (map (\<lambda>b. map (\<lambda>c. g a b c) zs) ys) ! (j * length zs + k)
                 = g a (ys ! j) (zs ! k)"
  proof -
    fix a
    have "concat (map (\<lambda>b. map (\<lambda>c. g a b c) zs) ys) ! (j * length zs + k)
          = map (\<lambda>b. map (\<lambda>c. g a b c) zs) ys ! j ! k"
      using assms by (intro nth_concat_uniform) auto
    then show "concat (map (\<lambda>b. map (\<lambda>c. g a b c) zs) ys) ! (j * length zs + k)
                 = g a (ys ! j) (zs ! k)"
      using assms by simp
  qed
  have len: "\<And>a. length (concat (map (\<lambda>b. map (\<lambda>c. g a b c) zs) ys)) = length ys * length zs"
    by (subst length_concat_uniform [where n = "length zs"]) auto
  have bound: "j * length zs + k < length ys * length zs"
  proof -
    have "j * length zs + k < Suc j * length zs" using assms by simp
    also have "\<dots> \<le> length ys * length zs" using assms by (intro mult_le_mono1) simp
    finally show ?thesis .
  qed
  have "concat (map (\<lambda>a. concat (map (\<lambda>b. map (\<lambda>c. g a b c) zs) ys)) xs)
           ! (i * (length ys * length zs) + (j * length zs + k))
        = map (\<lambda>a. concat (map (\<lambda>b. map (\<lambda>c. g a b c) zs) ys)) xs ! i ! (j * length zs + k)"
    using assms bound len by (intro nth_concat_uniform) auto
  then show ?thesis using assms inner by simp
qed

lemma length_mesh3:
  "length (concat (map (\<lambda>a. concat (map (\<lambda>b. map (\<lambda>c. g a b c) zs) ys)) xs))
     = length xs * (length ys * length zs)"
proof -
  have len: "\<And>a. length (concat (map (\<lambda>b. map (\<lambda>c. g a b c) zs) ys)) = length ys * length zs"
    by (subst length_concat_uniform [where n = "length zs"]) auto
  show ?thesis
    by (subst length_concat_uniform [where n = "length ys * length zs"]) (auto simp: len)
qed

lemma length_f_indices: "length (f_indices ds) = prod_list ds"
proof (induction ds)
  case Nil
  show ?case by simp
next
  case (Cons d ds)
  have "length (f_indices (d # ds)) = length (f_indices ds) * d"
    by (simp, subst length_concat_uniform [where n = d]) auto
  with Cons show ?case by (simp add: mult.commute)
qed

lemma nth_f_indices_Cons:
  assumes "p < d" "q < prod_list ds"
  shows "f_indices (d # ds) ! (q * d + p) = p # f_indices ds ! q"
proof -
  have "concat (map (\<lambda>js. map (\<lambda>i. i # js) [0..<d]) (f_indices ds)) ! (q * d + p)
        = map (\<lambda>js. map (\<lambda>i. i # js) [0..<d]) (f_indices ds) ! q ! p"
    using assms by (intro nth_concat_uniform) (auto simp: length_f_indices)
  then show ?thesis using assms by (simp add: length_f_indices)
qed

lemma nth_f_indices3:
  assumes "i < nx" "j < ny" "k < nz"
  shows "f_indices [nx, ny, nz] ! (i + nx * (j + ny * k)) = [i, j, k]"
proof -
  have jk: "k * ny + j < ny * nz"
  proof -
    have "k * ny + j < Suc k * ny" using assms by simp
    also have "\<dots> \<le> nz * ny" using assms by (intro mult_le_mono1) simp
    finally show ?thesis by (simp add: mult.commute)
  qed
  have "f_indices [nx, ny, nz] ! ((k * ny + j) * nx + i) = i # f_indices [ny, nz] ! (k * ny + j)"
    using assms jk by (intro nth_f_indices_Cons) auto
  also have "f_indices [ny, nz] ! (k * ny + j) = j # f_indices [nz] ! k"
    using assms by (intro nth_f_indices_Cons) auto
  also have "f_indices [nz] ! k = [k]"
    using assms nth_f_indices_Cons [of k nz 0 "[]"] by simp
  finally show ?thesis by (simp add: ac_simps)
qed


lemma coordinate_mesh_ok:
  assumes "2 \<le> x_resolution ps" "2 \<le> y_resolution ps" "2 \<le> z_resolution ps"
  shows "coordinate_mesh ps =
           Inr (meshgrid_ij (map (axis_coord (x_range ps) (x_resolution ps)) [0..<nat (x_resolution ps)])
                            (map (axis_coord (y_range ps) (y_resolution ps)) [0..<nat (y_resolution ps)])
                            (map (axis_coord (z_range ps) (z_resolution ps)) [0..<nat (z_resolution ps)]))"
  using assms by (simp add: coordinate_mesh_def linspace_ok)

lemma offset_bound3:
  assumes "i < (nx::nat)" "j < ny" "k < nz"
  shows "i * (ny * nz) + (j * nz + k) < nx * (ny * nz)"
proof -
  have "j * nz + k < Suc j * nz" using assms by simp
  also have "\<dots> \<le> ny * nz" using assms by (intro mult_le_mono1) simp
  finally have jk: "j * nz + k < ny * nz" .
  then have "i * (ny * nz) + (j * nz + k) < Suc i * (ny * nz)" by simp
  also have "\<dots> \<le> nx * (ny * nz)" using assms by (intro mult_le_mono1) simp
  finally show ?thesis .
qed

lemma point_bound3:
  assumes "i < (nx::nat)" "j < ny" "k < nz"
  shows "i + nx * (j + ny * k) < nx * (ny * nz)"
  using offset_bound3 [of k nz j ny i nx] assms by (simp add: ac_simps distrib_left)

lemma vectorize3_meshgrid:
  assumes "meshgrid_ij xs ys zs = (A, B, C)"
  shows "\<exists>v. vectorize3 f [A, B, C] = Inr (Numeric v) \<and> shape v = [length xs, length ys, length zs] \<and>
             length (elems v) = length xs * (length ys * length zs) \<and>
             (\<forall>i j k. i < length xs \<and> j < length ys \<and> k < length zs \<longrightarrow>
                elems v ! (i * (length ys * length zs) + (j * length zs + k))
                  = f (xs ! i) (ys ! j) (zs ! k))"
proof -
  let ?n = "length xs * (length ys * length zs)"
  let ?ea = "concat (map (\<lambda>a. concat (map (\<lambda>b. map (\<lambda>c. complex_of_real a) zs) ys)) xs)"
  let ?eb = "concat (map (\<lambda>a. concat (map (\<lambda>b. map (\<lambda>c. complex_of_real b) zs) ys)) xs)"
  let ?ec = "concat (map (\<lambda>a. concat (map (\<lambda>b. map (\<lambda>c. complex_of_real c) zs) ys)) xs)"
  have A: "elems A = ?ea" "shape A = [length xs, length ys, length zs]"
    and B: "elems B = ?eb" and C: "elems C = ?ec"
    using assms by (auto simp: meshgrid_ij_def Let_def)
  have len: "length ?ea = ?n" "length ?eb = ?n" "length ?ec = ?n"
    by (rule length_mesh3)+
  let ?v = "\<lparr> shape = shape A, is_complex = True,
              elems = map (\<lambda>(a, b, c). f (Re a) (Re b) (Re c)) (zip ?ea (zip ?eb ?ec)) \<rparr>"
  have v: "vectorize3 f [A, B, C] = Inr (Numeric ?v)"
    by (simp add: vectorize3_def A B C)
  have "elems ?v ! (i * (length ys * length zs) + (j * length zs + k)) = f (xs ! i) (ys ! j) (zs ! k)"
    if "i < length xs" "j < length ys" "k < length zs" for i j k
  proof -
    have b: "i * (length ys * length zs) + (j * length zs + k) < ?n"
      using that by (rule offset_bound3)
    have "?ea ! (i * (length ys * length zs) + (j * length zs + k)) = complex_of_real (xs ! i)"
         "?eb ! (i * (length ys * length zs) + (j * length zs + k)) = complex_of_real (ys ! j)"
         "?ec ! (i * (length ys * length zs) + (j * length zs + k)) = complex_of_real (zs ! k)"
      using that by (simp_all add: nth_mesh3)
    then show ?thesis using b len by simp
  qed
  then show ?thesis using v len A by auto
qed

lemma flatten_F_nth3:
  assumes "shape a = [nx, ny, nz]" "i < nx" "j < ny" "k < nz"
  shows "elems (flatten_F a) ! (i + nx * (j + ny * k)) = elems a ! (i * (ny * nz) + (j * nz + k))"
proof -
  have "i + nx * (j + ny * k) < length (f_indices [nx, ny, nz])"
    using point_bound3 [OF assms(2-4)] by (simp only: length_f_indices) simp
  then have "elems (flatten_F a) ! (i + nx * (j + ny * k))
             = elems a ! c_offset [nx, ny, nz] (f_indices [nx, ny, nz] ! (i + nx * (j + ny * k)))"
    using assms(1) by (simp add: flatten_F_def)
  also have "\<dots> = elems a ! c_offset [nx, ny, nz] [i, j, k]"
    using assms by (simp only: nth_f_indices3)
  finally show ?thesis by simp
qed

lemma length_flatten_F: "length (elems (flatten_F a)) = prod_list (shape a)"
  by (simp add: flatten_F_def length_f_indices)



lemma structured_grid_fields:
  assumes res: "2 \<le> x_resolution ps" "2 \<le> y_resolution ps" "2 \<le> z_resolution ps"
    and rng: "fst (x_range ps) \<le> snd (x_range ps)" "fst (y_range ps) \<le> snd (y_range ps)"
      "fst (z_range ps) \<le> snd (z_range ps)"
    and shp: "shape v = [nat (x_resolution ps), nat (y_resolution ps), nat (z_resolution ps)]"
    and len: "length (elems v) = nat (x_resolution ps) * (nat (y_resolution ps) * nat (z_resolution ps))"
  shows "\<exists>g. structured_grid lib ps (Numeric v) = Inr g \<and>
           (\<forall>i j k. i < nat (x_resolution ps) \<longrightarrow> j < nat (y_resolution ps) \<longrightarrow>
                    k < nat (z_resolution ps) \<longrightarrow>
              field_at g ''real'' (i, j, k)
                = Some (Re (elems v ! (i * (nat (y_resolution ps) * nat (z_resolution ps))
                                       + (j * nat (z_resolution ps) + k)))) \<and>
              field_at g ''imag'' (i, j, k)
                = Some (Im (elems v ! (i * (nat (y_resolution ps) * nat (z_resolution ps))
                                       + (j * nat (z_resolution ps) + k)))) \<and>
              point_coords g (i, j, k)
                = (axis_coord (x_range ps) (x_resolution ps) i,
                   axis_coord (y_range ps) (y_resolution ps) j,
                   axis_coord (z_range ps) (z_resolution ps) k))"
proof -
  let ?nx = "nat (x_resolution ps)" and ?ny = "nat (y_resolution ps)" and ?nz = "nat (z_resolution ps)"
  let ?re = "\<lparr> shape = shape v, is_complex = False,
               elems = map (\<lambda>c. complex_of_real (Re c)) (elems v) \<rparr>"
  let ?im = "\<lparr> shape = shape v, is_complex = False,
               elems = map (\<lambda>c. complex_of_real (Im c)) (elems v) \<rparr>"
  have lr: "length (elems (flatten_F ?re)) = ?nx * (?ny * ?nz)"
    and li: "length (elems (flatten_F ?im)) = ?nx * (?ny * ?nz)"
    using shp by (simp_all add: length_flatten_F)
  have ne: "shape v \<noteq> []" using shp by simp
  let ?sx = "(snd (x_range ps) - fst (x_range ps)) / of_int (x_resolution ps - 1)"
  let ?sy = "(snd (y_range ps) - fst (y_range ps)) / of_int (y_resolution ps - 1)"
  let ?sz = "(snd (z_range ps) - fst (z_range ps)) / of_int (z_resolution ps - 1)"
  have pos: "0 \<le> ?sx" "0 \<le> ?sy" "0 \<le> ?sz"
    using res rng by simp_all
  then have nonneg: "\<not> min ?sx (min ?sy ?sz) < 0" by simp
  let ?base = "\<lparr> dimensions = (x_resolution ps, y_resolution ps, z_resolution ps),
               origin = (fst (x_range ps), fst (y_range ps), fst (z_range ps)),
               spacing = (?sx, ?sy, ?sz),
               point_data = Map.empty, cell_data = Map.empty \<rparr>"
  let ?withre = "?base\<lparr> point_data := [''real'' \<mapsto> map Re (elems (flatten_F ?re))] \<rparr>"
  let ?grid = "?base\<lparr> point_data := [''real'' \<mapsto> map Re (elems (flatten_F ?re)),
                                  ''imag'' \<mapsto> map Re (elems (flatten_F ?im))] \<rparr>"
  have a1: "attach_field lib ?base ''real'' (np_real (Numeric v)) = Inr ?withre"
    using ne lr by (simp add: attach_field_def np_real_def set_item_def n_points_def mult.assoc)
  have a2: "attach_field lib ?withre ''imag'' (np_imag (Numeric v)) = Inr ?grid"
    using ne li by (simp add: attach_field_def np_imag_def set_item_def n_points_def mult.assoc)
  have div: "py_div (snd (x_range ps) - fst (x_range ps)) (x_resolution ps - 1) = Inr ?sx"
    "py_div (snd (y_range ps) - fst (y_range ps)) (y_resolution ps - 1) = Inr ?sy"
    "py_div (snd (z_range ps) - fst (z_range ps)) (z_resolution ps - 1) = Inr ?sz"
    using res by (simp_all add: py_div_def)
  have g: "structured_grid lib ps (Numeric v) = Inr ?grid"
    unfolding structured_grid_def Let_def div using nonneg a1 a2 by simp
  have "field_at ?grid ''real'' (i, j, k)
          = Some (Re (elems v ! (i * (?ny * ?nz) + (j * ?nz + k)))) \<and>
        field_at ?grid ''imag'' (i, j, k)
          = Some (Im (elems v ! (i * (?ny * ?nz) + (j * ?nz + k)))) \<and>
        point_coords ?grid (i, j, k)
          = (axis_coord (x_range ps) (x_resolution ps) i,
             axis_coord (y_range ps) (y_resolution ps) j,
             axis_coord (z_range ps) (z_resolution ps) k)"
    if idx: "i < ?nx" "j < ?ny" "k < ?nz" for i j k
  proof -
    let ?c = "i * (?ny * ?nz) + (j * ?nz + k)"
    let ?p = "i + ?nx * (j + ?ny * k)"
    have pb: "?p < ?nx * (?ny * ?nz)" using idx by (rule point_bound3)
    have cb: "?c < length (elems v)" using offset_bound3 [OF idx] len by simp
    have nr: "elems (flatten_F ?re) ! ?p = complex_of_real (Re (elems v ! ?c))"
    proof -
      have "elems (flatten_F ?re) ! ?p = elems ?re ! ?c"
        using shp idx by (intro flatten_F_nth3) simp_all
      then show ?thesis using cb by simp
    qed
    have ni: "elems (flatten_F ?im) ! ?p = complex_of_real (Im (elems v ! ?c))"
    proof -
      have "elems (flatten_F ?im) ! ?p = elems ?im ! ?c"
        using shp idx by (intro flatten_F_nth3) simp_all
      then show ?thesis using cb by simp
    qed
    have "field_at ?grid ''real'' (i, j, k) = Some (Re (elems v ! ?c))"
      using pb lr nr by (simp add: field_at_def point_id_def)
    moreover have "field_at ?grid ''imag'' (i, j, k) = Some (Im (elems v ! ?c))"
      using pb li ni by (simp add: field_at_def point_id_def)
    moreover have "point_coords ?grid (i, j, k)
               = (axis_coord (x_range ps) (x_resolution ps) i,
                  axis_coord (y_range ps) (y_resolution ps) j,
                  axis_coord (z_range ps) (z_resolution ps) k)"
      by (simp add: point_coords_def axis_coord_def)
    ultimately show ?thesis by blast
  qed
  with g show ?thesis by blast
qed

lemma sampled_grid_vectorize3:
  assumes res: "2 \<le> x_resolution ps" "2 \<le> y_resolution ps" "2 \<le> z_resolution ps"
    and rng: "fst (x_range ps) \<le> snd (x_range ps)" "fst (y_range ps) \<le> snd (y_range ps)"
      "fst (z_range ps) \<le> snd (z_range ps)"
  shows "\<exists>g. sampled_grid lib (vectorize3 f) ps
               = ([Evaluated (nat (x_resolution ps) * (nat (y_resolution ps) * nat (z_resolution ps)))],
                  Inr g) \<and>
           (\<forall>i j k. i < nat (x_resolution ps) \<longrightarrow> j < nat (y_resolution ps) \<longrightarrow>
                    k < nat (z_resolution ps) \<longrightarrow>
              field_at g ''real'' (i, j, k)
                = Some (Re (f (axis_coord (x_range ps) (x_resolution ps) i)
                              (axis_coord (y_range ps) (y_resolution ps) j)
                              (axis_coord (z_range ps) (z_resolution ps) k))) \<and>
              field_at g ''imag'' (i, j, k)
                = Some (Im (f (axis_coord (x_range ps) (x_resolution ps) i)
                              (axis_coord (y_range ps) (y_resolution ps) j)
                              (axis_coord (z_range ps) (z_resolution ps) k))) \<and>
              point_coords g (i, j, k)
                = (axis_coord (x_range ps) (x_resolution ps) i,
                   axis_coord (y_range ps) (y_resolution ps) j,
                   axis_coord (z_range ps) (z_resolution ps) k))"
proof -
  let ?nx = "nat (x_resolution ps)" and ?ny = "nat (y_resolution ps)" and ?nz = "nat (z_resolution ps)"
  let ?xs = "map (axis_coord (x_range ps) (x_resolution ps)) [0..<?nx]"
  let ?ys = "map (axis_coord (y_range ps) (y_resolution ps)) [0..<?ny]"
  let ?zs = "map (axis_coord (z_range ps) (z_resolution ps)) [0..<?nz]"
  obtain A B C where m: "meshgrid_ij ?xs ?ys ?zs = (A, B, C)"
    by (cases "meshgrid_ij ?xs ?ys ?zs") auto
  have cm: "coordinate_mesh ps = Inr (A, B, C)"
    using res m by (simp add: coordinate_mesh_ok)
  have lenA: "length (elems A) = ?nx * (?ny * ?nz)"
    using m length_mesh3 [of "\<lambda>a b c. complex_of_real a" ?zs ?ys ?xs]
    by (auto simp: meshgrid_ij_def Let_def)
  from vectorize3_meshgrid [OF m, of f] obtain v where
    v: "vectorize3 f [A, B, C] = Inr (Numeric v)"
    and shp: "shape v = [?nx, ?ny, ?nz]"
    and len: "length (elems v) = ?nx * (?ny * ?nz)"
    and val: "\<And>i j k. i < ?nx \<Longrightarrow> j < ?ny \<Longrightarrow> k < ?nz \<Longrightarrow>
                elems v ! (i * (?ny * ?nz) + (j * ?nz + k)) = f (?xs ! i) (?ys ! j) (?zs ! k)"
    by auto
  have val': "elems v ! (i * (?ny * ?nz) + (j * ?nz + k))
                = f (axis_coord (x_range ps) (x_resolution ps) i)
                    (axis_coord (y_range ps) (y_resolution ps) j)
                    (axis_coord (z_range ps) (z_resolution ps) k)"
    if "i < ?nx" "j < ?ny" "k < ?nz" for i j k
    using val [OF that] that by simp
  from structured_grid_fields [OF res rng shp len, of lib] obtain g where
    g: "structured_grid lib ps (Numeric v) = Inr g"
    and fld: "\<And>i j k. i < ?nx \<Longrightarrow> j < ?ny \<Longrightarrow> k < ?nz \<Longrightarrow>
              field_at g ''real'' (i, j, k)
                = Some (Re (elems v ! (i * (?ny * ?nz) + (j * ?nz + k)))) \<and>
              field_at g ''imag'' (i, j, k)
                = Some (Im (elems v ! (i * (?ny * ?nz) + (j * ?nz + k)))) \<and>
              point_coords g (i, j, k)
                = (axis_coord (x_range ps) (x_resolution ps) i,
                   axis_coord (y_range ps) (y_resolution ps) j,
                   axis_coord (z_range ps) (z_resolution ps) k)"
    by blast
  have sg: "sampled_grid lib (vectorize3 f) ps = ([Evaluated (?nx * (?ny * ?nz))], Inr g)"
    using cm v g lenA by (simp add: sampled_grid_def)
  have "field_at g ''real'' (i, j, k)
          = Some (Re (f (axis_coord (x_range ps) (x_resolution ps) i)
                        (axis_coord (y_range ps) (y_resolution ps) j)
                        (axis_coord (z_range ps) (z_resolution ps) k))) \<and>
        field_at g ''imag'' (i, j, k)
          = Some (Im (f (axis_coord (x_range ps) (x_resolution ps) i)
                        (axis_coord (y_range ps) (y_resolution ps) j)
                        (axis_coord (z_range ps) (z_resolution ps) k))) \<and>
        point_coords g (i, j, k)
          = (axis_coord (x_range ps) (x_resolution ps) i,
             axis_coord (y_range ps) (y_resolution ps) j,
             axis_coord (z_range ps) (z_resolution ps) k)"
    if "i < ?nx" "j < ?ny" "k < ?nz" for i j k
    using fld [OF that] val' [OF that] by simp
  with sg show ?thesis by blast
qed

section \<open>Traversal order of the sampled fields\<close>

lemma linspace_length:
  assumes "0 \<le> n"
  shows "\<exists>ys. linspace a b n = Inr ys \<and> length ys = nat n"
  using assms by (simp add: linspace_def Let_def)

lemma coordinate_mesh_length:
  assumes "0 \<le> x_resolution ps" "0 \<le> y_resolution ps" "0 \<le> z_resolution ps"
  shows "\<exists>A B C. coordinate_mesh ps = Inr (A, B, C) \<and>
           length (elems A) = nat (x_resolution ps) * (nat (y_resolution ps) * nat (z_resolution ps))"
proof -
  obtain xs where xs: "linspace (fst (x_range ps)) (snd (x_range ps)) (x_resolution ps) = Inr xs"
    "length xs = nat (x_resolution ps)" using linspace_length [OF assms(1)] by blast
  obtain ys where ys: "linspace (fst (y_range ps)) (snd (y_range ps)) (y_resolution ps) = Inr ys"
    "length ys = nat (y_resolution ps)" using linspace_length [OF assms(2)] by blast
  obtain zs where zs: "linspace (fst (z_range ps)) (snd (z_range ps)) (z_resolution ps) = Inr zs"
    "length zs = nat (z_resolution ps)" using linspace_length [OF assms(3)] by blast
  obtain A B C where m: "meshgrid_ij xs ys zs = (A, B, C)"
    by (cases "meshgrid_ij xs ys zs") auto
  have "length (elems A) = length xs * (length ys * length zs)"
    using m length_mesh3 [of "\<lambda>a b c. complex_of_real a" zs ys xs]
    by (auto simp: meshgrid_ij_def Let_def)
  then show ?thesis using xs ys zs m by (simp add: coordinate_mesh_def)
qed

lemma structured_grid_reversed:
  assumes "2 \<le> x_resolution ps" "2 \<le> y_resolution ps" "2 \<le> z_resolution ps"
    and "snd (x_range ps) < fst (x_range ps) \<or> snd (y_range ps) < fst (y_range ps)
           \<or> snd (z_range ps) < fst (z_range ps)"
  shows "structured_grid lib ps v = Inl ValueError"
proof -
  let ?sx = "(snd (x_range ps) - fst (x_range ps)) / of_int (x_resolution ps - 1)"
  let ?sy = "(snd (y_range ps) - fst (y_range ps)) / of_int (y_resolution ps - 1)"
  let ?sz = "(snd (z_range ps) - fst (z_range ps)) / of_int (z_resolution ps - 1)"
  have div: "py_div (snd (x_range ps) - fst (x_range ps)) (x_resolution ps - 1) = Inr ?sx"
    "py_div (snd (y_range ps) - fst (y_range ps)) (y_resolution ps - 1) = Inr ?sy"
    "py_div (snd (z_range ps) - fst (z_range ps)) (z_resolution ps - 1) = Inr ?sz"
    using assms(1-3) by (simp_all add: py_div_def)
  have "?sx < 0 \<or> ?sy < 0 \<or> ?sz < 0"
    using assms by (auto simp: divide_neg_pos)
  then have "min ?sx (min ?sy ?sz) < 0" by auto
  then show ?thesis unfolding structured_grid_def Let_def div by simp
qed

text \<open>
  Claim C1 speaks of every parameter space whose resolutions are at least 2. With a range
  whose upper end is below its lower end the spacing is negative, the grid refuses it and
  no field is attached at all.
\<close>

theorem reversed_range_counterexample:
  "2 \<le> x_resolution reversed_space \<and> 2 \<le> y_resolution reversed_space \<and>
   2 \<le> z_resolution reversed_space \<and>
   sampled_grid example_lib (vectorize3 example_fun) reversed_space
     = ([Evaluated 12], Inl ValueError)"
proof -
  have res: "2 \<le> x_resolution reversed_space" "2 \<le> y_resolution reversed_space"
    "2 \<le> z_resolution reversed_space"
    by (simp_all add: reversed_space_def new_ParamSpace3D_def)
  have rev: "snd (x_range reversed_space) < fst (x_range reversed_space)
               \<or> snd (y_range reversed_space) < fst (y_range reversed_space)
               \<or> snd (z_range reversed_space) < fst (z_range reversed_space)"
    by (simp add: reversed_space_def new_ParamSpace3D_def)
  obtain A B C where m: "coordinate_mesh reversed_space = Inr (A, B, C)"
    and l: "length (elems A) = nat (x_resolution reversed_space)
              * (nat (y_resolution reversed_space) * nat (z_resolution reversed_space))"
    using coordinate_mesh_length [of reversed_space] res by force
  have n: "length (elems A) = 12"
    unfolding l by (simp add: reversed_space_def new_ParamSpace3D_def)
  have "sampled_grid example_lib (vectorize3 example_fun) reversed_space
          = ([Evaluated 12], Inl ValueError)"
    using m n structured_grid_reversed [OF res rev, of example_lib]
    by (simp add: sampled_grid_def vectorize3_def)
  with res show ?thesis by simp
qed

text \<open>
  Claim C1 as amended. For a parameter space whose three resolutions are at least 2 and
  whose ranges are not reversed (on each axis the lower end is at most the upper end), and a
  function \<open>f\<close> applied elementwise, the volumetric extractor builds its grid without error,
  and at the lattice point with axis indices \<open>(i, j, k)\<close> the point arrays \<open>real\<close> and \<open>imag\<close>
  hold the real and imaginary part of \<open>f\<close> at the \<open>i\<close>-th, \<open>j\<close>-th and \<open>k\<close>-th evenly spaced
  coordinate of the three axes, which is also where the grid places that point. The
  resolutions need not be equal.
\<close>

theorem field_order_matches_grid:
  assumes "2 \<le> x_resolution ps" "2 \<le> y_resolution ps" "2 \<le> z_resolution ps"
    and "fst (x_range ps) \<le> snd (x_range ps)" "fst (y_range ps) \<le> snd (y_range ps)"
      "fst (z_range ps) \<le> snd (z_range ps)"
    and "i < nat (x_resolution ps)" "j < nat (y_resolution ps)" "k < nat (z_resolution ps)"
  shows "\<exists>g. sampled_grid lib (vectorize3 f) ps
               = ([Evaluated (nat (x_resolution ps) * (nat (y_resolution ps) * nat (z_resolution ps)))],
                  Inr g) \<and>
             field_at g ''real'' (i, j, k)
               = Some (Re (f (axis_coord (x_range ps) (x_resolution ps) i)
                             (axis_coord (y_range ps) (y_resolution ps) j)
                             (axis_coord (z_range ps) (z_resolution ps) k))) \<and>
             field_at g ''imag'' (i, j, k)
               = Some (Im (f (axis_coord (x_range ps) (x_resolution ps) i)
                             (axis_coord (y_range ps) (y_resolution ps) j)
                             (axis_coord (z_range ps) (z_resolution ps) k))) \<and>
             point_coords g (i, j, k)
               = (axis_coord (x_range ps) (x_resolution ps) i,
                  axis_coord (y_range ps) (y_resolution ps) j,
                  axis_coord (z_range ps) (z_resolution ps) k)"
  using sampled_grid_vectorize3 [OF assms(1-6), of lib f] assms(7-9) by blast

theorem field_order_matches_grid_witness:
  "2 \<le> x_resolution example_space \<and> 2 \<le> y_resolution example_space \<and>
   2 \<le> z_resolution example_space \<and>
   fst (x_range example_space) \<le> snd (x_range example_space) \<and>
   fst (y_range example_space) \<le> snd (y_range example_space) \<and>
   fst (z_range example_space) \<le> snd (z_range example_space) \<and>
   0 < nat (x_resolution example_space) \<and> 2 < nat (y_resolution example_space) \<and>
   1 < nat (z_resolution example_space) \<and>
   (\<exists>g. sampled_grid example_lib (vectorize3 example_fun) example_space = ([Evaluated 12], Inr g) \<and>
        field_at g ''real'' (0, 2, 1) = Some 320 \<and>
        field_at g ''imag'' (0, 2, 1) = Some (- 2) \<and>
        point_coords g (0, 2, 1) = (0, 2, 3))"
  using field_order_matches_grid [of example_space 0 2 1 example_lib example_fun]
  by (simp add: example_space_def new_ParamSpace3D_def example_fun_def axis_coord_def)

section \<open>What the volumetric extractor returns\<close>

lemma vis_complex_equation_result:
  assumes "sampled_grid lib numpy_func ps = (evs, Inr g)"
    and "contour lib g [0] ''real'' = Inr r"
    and "contour lib g [0] ''imag'' = Inr m"
    and "intersection_lines lib r m = Inr c"
    and "plot \<longrightarrow> show_scene lib c (plot_scale ps) = Inr ()"
  shows "snd (vis_complex_equation lib numpy_func ps plot) = Inr (c, r, m)"
  using assms by (simp add: vis_complex_equation_def intersection_def)

text \<open>
  Claim C2. For a valid parameter space (resolutions at least 2, no range reversed) and a
  function \<open>f\<close> applied elementwise, the extractor builds a grid \<open>g\<close> whose point array \<open>real\<close>
  holds the real part of \<open>f\<close> and whose point array \<open>imag\<close> holds the imaginary part of \<open>f\<close> at
  every lattice point. Whenever the contour filter yields the surface \<open>r\<close> for the field
  \<open>real\<close> of \<open>g\<close> at level 0 and the surface \<open>m\<close> for the field \<open>imag\<close> of \<open>g\<close> at level 0, and the
  intersection filter yields the curve \<open>c\<close> for \<open>r\<close> and \<open>m\<close> (and, when plotting is requested,
  the renderer shows the scene), the extractor returns the triple \<open>(c, r, m)\<close>: the
  intersection curve first, then the real surface, then the imaginary surface.
\<close>

theorem extractor_returns_curve_and_surfaces:
  assumes "2 \<le> x_resolution ps" "2 \<le> y_resolution ps" "2 \<le> z_resolution ps"
    and "fst (x_range ps) \<le> snd (x_range ps)" "fst (y_range ps) \<le> snd (y_range ps)"
      "fst (z_range ps) \<le> snd (z_range ps)"
  shows "\<exists>g. snd (sampled_grid lib (vectorize3 f) ps) = Inr g \<and>
             (\<forall>i j k. i < nat (x_resolution ps) \<longrightarrow> j < nat (y_resolution ps) \<longrightarrow>
                      k < nat (z_resolution ps) \<longrightarrow>
                field_at g ''real'' (i, j, k)
                  = Some (Re (f (axis_coord (x_range ps) (x_resolution ps) i)
                                (axis_coord (y_range ps) (y_resolution ps) j)
                                (axis_coord (z_range ps) (z_resolution ps) k))) \<and>
                field_at g ''imag'' (i, j, k)
                  = Some (Im (f (axis_coord (x_range ps) (x_resolution ps) i)
                                (axis_coord (y_range ps) (y_resolution ps) j)
                                (axis_coord (z_range ps) (z_resolution ps) k))) \<and>
                point_coords g (i, j, k)
                  = (axis_coord (x_range ps) (x_resolution ps) i,
                     axis_coord (y_range ps) (y_resolution ps) j,
                     axis_coord (z_range ps) (z_resolution ps) k)) \<and>
             (\<forall>r m c. contour lib g [0] ''real'' = Inr r \<longrightarrow>
                      contour lib g [0] ''imag'' = Inr m \<longrightarrow>
                      intersection_lines lib r m = Inr c \<longrightarrow>
                      (plot \<longrightarrow> show_scene lib c (plot_scale ps) = Inr ()) \<longrightarrow>
                      snd (vis_complex_equation lib (vectorize3 f) ps plot) = Inr (c, r, m))"
proof -
  from sampled_grid_vectorize3 [OF assms, of lib f] obtain g evs
    where g: "sampled_grid lib (vectorize3 f) ps = (evs, Inr g)"
      and fld: "\<forall>i j k. i < nat (x_resolution ps) \<longrightarrow> j < nat (y_resolution ps) \<longrightarrow>
                      k < nat (z_resolution ps) \<longrightarrow>
                field_at g ''real'' (i, j, k)
                  = Some (Re (f (axis_coord (x_range ps) (x_resolution ps) i)
                                (axis_coord (y_range ps) (y_resolution ps) j)
                                (axis_coord (z_range ps) (z_resolution ps) k))) \<and>
                field_at g ''imag'' (i, j, k)
                  = Some (Im (f (axis_coord (x_range ps) (x_resolution ps) i)
                                (axis_coord (y_range ps) (y_resolution ps) j)
                                (axis_coord (z_range ps) (z_resolution ps) k))) \<and>
                point_coords g (i, j, k)
                  = (axis_coord (x_range ps) (x_resolution ps) i,
                     axis_coord (y_range ps) (y_resolution ps) j,
                     axis_coord (z_range ps) (z_resolution ps) k)"
    by blast
  have ret: "snd (vis_complex_equation lib (vectorize3 f) ps plot) = Inr (c, r, m)"
    if "contour lib g [0] ''real'' = Inr r" "contour lib g [0] ''imag'' = Inr m"
      "intersection_lines lib r m = Inr c" "plot \<longrightarrow> show_scene lib c (plot_scale ps) = Inr ()"
    for r m c
    using g that by (rule vis_complex_equation_result)
  have "snd (sampled_grid lib (vectorize3 f) ps) = Inr g" using g by simp
  with fld ret show ?thesis by blast
qed

theorem extractor_returns_curve_and_surfaces_witness:
  "2 \<le> x_resolution example_space \<and> 2 \<le> y_resolution example_space \<and>
   2 \<le> z_resolution example_space \<and>
   fst (x_range example_space) \<le> snd (x_range example_space) \<and>
   fst (y_range example_space) \<le> snd (y_range example_space) \<and>
   fst (z_range example_space) \<le> snd (z_range example_space) \<and>
   (\<exists>g r m c. snd (sampled_grid example_lib (vectorize3 example_fun) example_space) = Inr g \<and>
       field_at g ''real'' (1, 2, 0) = Some 21 \<and>
       field_at g ''imag'' (1, 2, 0) = Some (- 1) \<and>
       contour example_lib g [0] ''real'' = Inr r \<and>
       contour example_lib g [0] ''imag'' = Inr m \<and>
       intersection_lines example_lib r m = Inr c \<and>
       show_scene example_lib c (plot_scale example_space) = Inr () \<and>
       snd (vis_complex_equation example_lib (vectorize3 example_fun) example_space True)
         = Inr (c, r, m))"
proof -
  have res: "2 \<le> x_resolution example_space" "2 \<le> y_resolution example_space"
    "2 \<le> z_resolution example_space"
    by (simp_all add: example_space_def new_ParamSpace3D_def)
  have rng: "fst (x_range example_space) \<le> snd (x_range example_space)"
    "fst (y_range example_space) \<le> snd (y_range example_space)"
    "fst (z_range example_space) \<le> snd (z_range example_space)"
    by (simp_all add: example_space_def new_ParamSpace3D_def)
  from extractor_returns_curve_and_surfaces [OF res rng, of example_lib example_fun True]
  obtain g where g: "snd (sampled_grid example_lib (vectorize3 example_fun) example_space) = Inr g"
    and fld: "\<And>i j k. i < nat (x_resolution example_space) \<Longrightarrow>
                      j < nat (y_resolution example_space) \<Longrightarrow>
                      k < nat (z_resolution example_space) \<Longrightarrow>
                field_at g ''real'' (i, j, k)
                  = Some (Re (example_fun (axis_coord (x_range example_space) (x_resolution example_space) i)
                                (axis_coord (y_range example_space) (y_resolution example_space) j)
                                (axis_coord (z_range example_space) (z_resolution example_space) k))) \<and>
                field_at g ''imag'' (i, j, k)
                  = Some (Im (example_fun (axis_coord (x_range example_space) (x_resolution example_space) i)
                                (axis_coord (y_range example_space) (y_resolution example_space) j)
                                (axis_coord (z_range example_space) (z_resolution example_space) k)))"
    and all: "\<And>r m c. contour example_lib g [0] ''real'' = Inr r \<Longrightarrow>
                      contour example_lib g [0] ''imag'' = Inr m \<Longrightarrow>
                      intersection_lines example_lib r m = Inr c \<Longrightarrow>
                      show_scene example_lib c (plot_scale example_space) = Inr () \<Longrightarrow>
                      snd (vis_complex_equation example_lib (vectorize3 example_fun) example_space True)
                        = Inr (c, r, m)"
    by blast
  have f1: "field_at g ''real'' (1, 2, 0) = Some 21 \<and> field_at g ''imag'' (1, 2, 0) = Some (- 1)"
    using fld [of 1 2 0]
    by (simp add: example_space_def new_ParamSpace3D_def example_fun_def axis_coord_def)
  obtain r where r: "contour example_lib g [0] ''real'' = Inr r" by (simp add: example_lib_def)
  obtain m where m: "contour example_lib g [0] ''imag'' = Inr m" by (simp add: example_lib_def)
  obtain c where c: "intersection_lines example_lib r m = Inr c" by (simp add: example_lib_def)
  have sh: "show_scene example_lib c (plot_scale example_space) = Inr ()"
    by (simp add: example_lib_def)
  from all [OF r m c sh] g f1 r m c sh res rng show ?thesis by blast
qed

section \<open>A resolution of one\<close>

lemma structured_grid_resolution_one:
  assumes "x_resolution ps = 1 \<or> y_resolution ps = 1 \<or> z_resolution ps = 1"
  shows "structured_grid lib ps v = Inl ZeroDivisionError"
  using assms by (auto simp: structured_grid_def py_div_def Let_def)

text \<open>
  Claim C3 says that a resolution of 1 is rejected with an error of kind InvalidDomain, at
  construction or by the extractor before any sampling. The program has no such check:
  construction succeeds, the extractor samples the function over the whole mesh and then
  divides by zero.
\<close>

theorem resolution_one_counterexample:
  "x_resolution degenerate_space = 1 \<and>
   vis_complex_equation example_lib (vectorize3 example_fun) degenerate_space False
     = ([Evaluated 6], Inl ZeroDivisionError)"
proof -
  have one: "x_resolution degenerate_space = 1"
    by (simp add: degenerate_space_def new_ParamSpace3D_def)
  obtain A B C where m: "coordinate_mesh degenerate_space = Inr (A, B, C)"
    and l: "length (elems A) = nat (x_resolution degenerate_space)
              * (nat (y_resolution degenerate_space) * nat (z_resolution degenerate_space))"
    using coordinate_mesh_length [of degenerate_space]
    by (force simp: degenerate_space_def new_ParamSpace3D_def)
  have n: "length (elems A) = 6"
    unfolding l by (simp add: degenerate_space_def new_ParamSpace3D_def)
  have "vis_complex_equation example_lib (vectorize3 example_fun) degenerate_space False
          = ([Evaluated 6], Inl ZeroDivisionError)"
    using m n structured_grid_resolution_one [of degenerate_space example_lib] one
    by (simp add: vis_complex_equation_def sampled_grid_def vectorize3_def)
  with one show ?thesis by simp
qed

text \<open>
  Claim C3 as amended. Given a parameter space in which some resolution is 1 and none is
  negative, the volumetric extractor builds the coordinate mesh, calls the numeric function
  once on all of it, and, when that call returns, fails with \<open>ZeroDivisionError\<close> at the
  division by the resolution minus one. (When the call fails, its error is the result.)
\<close>

theorem resolution_one_divides_by_zero:
  assumes "x_resolution ps = 1 \<or> y_resolution ps = 1 \<or> z_resolution ps = 1"
    and "0 \<le> x_resolution ps" "0 \<le> y_resolution ps" "0 \<le> z_resolution ps"
  shows "\<exists>A B C. coordinate_mesh ps = Inr (A, B, C) \<and>
           vis_complex_equation lib numpy_func ps plot
             = ([Evaluated (nat (x_resolution ps) * (nat (y_resolution ps) * nat (z_resolution ps)))],
                case numpy_func [A, B, C] of Inl e \<Rightarrow> Inl e | Inr v \<Rightarrow> Inl ZeroDivisionError)"
proof -
  from coordinate_mesh_length [OF assms(2-4)] obtain A B C
    where m: "coordinate_mesh ps = Inr (A, B, C)"
      and l: "length (elems A) = nat (x_resolution ps) * (nat (y_resolution ps) * nat (z_resolution ps))"
    by blast
  have "vis_complex_equation lib numpy_func ps plot
          = ([Evaluated (nat (x_resolution ps) * (nat (y_resolution ps) * nat (z_resolution ps)))],
             case numpy_func [A, B, C] of Inl e \<Rightarrow> Inl e | Inr v \<Rightarrow> Inl ZeroDivisionError)"
    using m l structured_grid_resolution_one [OF assms(1), of lib]
    by (simp add: vis_complex_equation_def sampled_grid_def split: sum.splits)
  with m show ?thesis by blast
qed

theorem resolution_one_divides_by_zero_witness:
  "(x_resolution degenerate_space = 1 \<or> y_resolution degenerate_space = 1
      \<or> z_resolution degenerate_space = 1) \<and>
   0 \<le> x_resolution degenerate_space \<and> 0 \<le> y_resolution degenerate_space \<and>
   0 \<le> z_resolution degenerate_space \<and>
   (\<exists>A B C. coordinate_mesh degenerate_space = Inr (A, B, C) \<and>
      vis_complex_equation example_lib (vectorize3 example_fun) degenerate_space True
        = ([Evaluated 6],
           case vectorize3 example_fun [A, B, C] of Inl e \<Rightarrow> Inl e | Inr v \<Rightarrow> Inl ZeroDivisionError))"
  using resolution_one_divides_by_zero [of degenerate_space example_lib "vectorize3 example_fun" True]
  by (simp add: degenerate_space_def new_ParamSpace3D_def)

section \<open>Substitution and evaluation of expressions\<close>

lemma add_term_symbols:
  "(\<Union>t \<in> set (add_term t0 ts). set (fst t)) \<subseteq> set (fst t0) \<union> (\<Union>t \<in> set ts. set (fst t))"
  by (induction ts) auto

lemma fold_add_term_symbols:
  "(\<Union>t \<in> set (fold add_term ts acc). set (fst t))
     \<subseteq> (\<Union>t \<in> set ts. set (fst t)) \<union> (\<Union>t \<in> set acc. set (fst t))"
proof (induction ts arbitrary: acc)
  case Nil
  show ?case by simp
next
  case (Cons t ts)
  have "(\<Union>u \<in> set (fold add_term ts (add_term t acc)). set (fst u))
          \<subseteq> (\<Union>u \<in> set ts. set (fst u)) \<union> (\<Union>u \<in> set (add_term t acc). set (fst u))"
    by (rule Cons.IH)
  also have "\<dots> \<subseteq> (\<Union>u \<in> set ts. set (fst u)) \<union> (set (fst t) \<union> (\<Union>u \<in> set acc. set (fst u)))"
    using add_term_symbols [of t acc] by blast
  finally show ?case by auto
qed

lemma collect_terms_symbols:
  "(\<Union>t \<in> set (collect_terms ts). set (fst t)) \<subseteq> (\<Union>t \<in> set ts. set (fst t))"
proof -
  have "(\<Union>t \<in> set (collect_terms ts). set (fst t)) \<subseteq> (\<Union>t \<in> set (fold add_term ts []). set (fst t))"
    by (auto simp: collect_terms_def)
  also have "\<dots> \<subseteq> (\<Union>t \<in> set ts. set (fst t))"
    using fold_add_term_symbols [of ts "[]"] by simp
  finally show ?thesis .
qed

lemma subs_term_symbols: "s \<in> set (fst (subs_term m t)) \<Longrightarrow> s \<notin> fst ` set m"
  by (auto simp: subs_term_def map_of_eq_None_iff)

lemma free_symbols_subs_dict: "s \<in> free_symbols (subs_dict m e) \<Longrightarrow> s \<notin> fst ` set m"
proof (cases e)
  case (Poly ts)
  assume "s \<in> free_symbols (subs_dict m e)"
  then have "s \<in> (\<Union>t \<in> set (collect_terms (collect_terms (map (subs_term m) ts))). set (fst t))"
    using Poly by simp
  then have "s \<in> (\<Union>t \<in> set (collect_terms (map (subs_term m) ts)). set (fst t))"
    using collect_terms_symbols by blast
  then have "s \<in> (\<Union>t \<in> set (map (subs_term m) ts). set (fst t))"
    using collect_terms_symbols by blast
  then obtain t where "s \<in> set (fst (subs_term m t))" by auto
  then show ?thesis by (rule subs_term_symbols)
qed

text \<open>
  A substitution can remove symbols that are not among its keys: with \<open>k\<close> set to zero the
  product of \<open>k\<close> and \<open>q\<close> is the expression zero, in which \<open>q\<close> does not occur any more.
\<close>

lemma subs_dict_vanishing_factor:
  "subs_dict [(''k'', PyFloat 0)] product_example = Poly [] \<and>
   ''q'' \<notin> free_symbols (subs_dict [(''k'', PyFloat 0)] product_example)"
  by (simp add: product_example_def subs_term_def scalar_value_def collect_terms_def)

lemma term_value_cong:
  "(\<And>s. s \<in> set syms \<Longrightarrow> env s = env' s) \<Longrightarrow> term_value env syms acc = term_value env' syms acc"
proof (induction syms arbitrary: acc)
  case Nil
  show ?case by simp
next
  case (Cons s ss)
  have "lookup env s = lookup env' s" using Cons.prems [of s] by (simp add: lookup_def)
  moreover have "\<And>acc. term_value env ss acc = term_value env' ss acc"
    by (rule Cons.IH) (rule Cons.prems, simp)
  ultimately show ?case by (simp cong: sum.case_cong)
qed

lemma sum_terms_cong:
  "(\<And>t s. t \<in> set ts \<Longrightarrow> s \<in> set (fst t) \<Longrightarrow> env s = env' s) \<Longrightarrow>
   sum_terms env ts acc = sum_terms env' ts acc"
proof (induction ts arbitrary: acc)
  case Nil
  show ?case by simp
next
  case (Cons t ts)
  have "term_value env (fst t) (Numeric (np_number (snd t)))
          = term_value env' (fst t) (Numeric (np_number (snd t)))"
    by (rule term_value_cong) (rule Cons.prems [of t], simp_all)
  moreover have "\<And>acc. sum_terms env ts acc = sum_terms env' ts acc"
    by (rule Cons.IH) (rule Cons.prems, simp_all)
  ultimately show ?case by (simp cong: sum.case_cong)
qed

lemma np_eval_cong:
  assumes "\<And>s. s \<in> free_symbols e \<Longrightarrow> env s = env' s"
  shows "np_eval env e = np_eval env' e"
proof (cases e)
  case (Poly ts)
  have "env s = env' s" if "t \<in> set (collect_terms ts)" "s \<in> set (fst t)" for t s
  proof -
    have "s \<in> free_symbols (Poly ts)" using that by auto
    then show ?thesis using assms Poly by simp
  qed
  then have "sum_terms env (collect_terms ts) (Numeric (np_number 0))
             = sum_terms env' (collect_terms ts) (Numeric (np_number 0))"
    by (rule sum_terms_cong)
  then show ?thesis unfolding Poly by simp
qed








lemma get_numpy_func_Some:
  assumes "fixed_param ps = Some m" "distinct [x ps, y ps, z ps]"
  shows "get_numpy_func e ps =
           Inr (\<lambda>args. if length args \<noteq> length [x ps, y ps, z ps] then Inl TypeError
                       else np_eval (map_of (zip [x ps, y ps, z ps] args)) (subs_dict m e))"
  using assms by (simp add: get_numpy_func_def subs_def lambdify_def)

section \<open>The default of the fixed parameters\<close>

text \<open>
  Claim C10. A parameter space constructed without the argument \<open>fixed_param\<close> holds \<open>None\<close> in
  that field, not an empty mapping, and compiling any expression against it fails in the
  substitution with a \<open>ValueError\<close>, whatever the expression's symbols are. With an empty
  dictionary passed explicitly (and three different axis symbols) compilation returns a
  function.
\<close>

theorem omitted_fixed_param_breaks_compilation:
  "fixed_param (new_ParamSpace3D sx rx sy ry sz rz resx resy resz None) = None \<and>
   get_numpy_func e (new_ParamSpace3D sx rx sy ry sz rz resx resy resz None) = Inl ValueError \<and>
   (distinct [sx, sy, sz] \<longrightarrow>
      \<not> isl (get_numpy_func e (new_ParamSpace3D sx rx sy ry sz rz resx resy resz (Some []))))"
  by (simp add: new_ParamSpace3D_def get_numpy_func_def subs_def lambdify_def)

theorem omitted_fixed_param_breaks_compilation_witness:
  "distinct [''a'', ''b'', ''c''] \<and>
   fixed_param (new_ParamSpace3D ''a'' (0, 1) ''b'' (0, 1) ''c'' (0, 1) None None None None) = None \<and>
   get_numpy_func (Poly [([''a''], 1), ([''b''], 1), ([''c''], 1)])
     (new_ParamSpace3D ''a'' (0, 1) ''b'' (0, 1) ''c'' (0, 1) None None None None) = Inl ValueError \<and>
   \<not> isl (get_numpy_func (Poly [([''a''], 1), ([''b''], 1), ([''c''], 1)])
     (new_ParamSpace3D ''a'' (0, 1) ''b'' (0, 1) ''c'' (0, 1) None None None (Some [])))"
  using omitted_fixed_param_breaks_compilation
    [of "''a''" "(0, 1)" "''b''" "(0, 1)" "''c''" "(0, 1)" None None None
        "Poly [([''a''], 1), ([''b''], 1), ([''c''], 1)]"]
  by simp

section \<open>Symbols that are neither axes nor fixed\<close>






section \<open>A symbol that is both an axis and fixed\<close>

lemma map_of_filter_fst:
  "map_of (filter (\<lambda>kv. P (fst kv)) m) k = (if P k then map_of m k else None)"
  by (induction m) auto

lemma collect_params_result:
  "set ps \<subseteq> {px, py} \<union> fst ` set fixed \<Longrightarrow>
   collect_params px py fixed ps (lp, fv)
     = Inr (lp @ filter (\<lambda>p. p \<noteq> px \<and> p \<noteq> py) ps,
            fv @ map (\<lambda>p. the (map_of fixed p)) (filter (\<lambda>p. p \<noteq> px \<and> p \<noteq> py) ps))"
  by (induction ps arbitrary: lp fv) auto

lemma collect_params_all:
  "collect_params px py fixed ([px, py] @ map fst fixed) ([px, py], [])
     = Inr ([px, py] @ filter (\<lambda>p. p \<noteq> px \<and> p \<noteq> py) (map fst fixed),
            map (\<lambda>p. the (map_of fixed p)) (filter (\<lambda>p. p \<noteq> px \<and> p \<noteq> py) (map fst fixed)))"
proof -
  have "set ([px, py] @ map fst fixed) \<subseteq> {px, py} \<union> fst ` set fixed" by auto
  from collect_params_result [OF this, of "[px, py]" "[]"] show ?thesis by simp
qed

lemma collect_params_ignores_axes:
  "collect_params px py (filter (\<lambda>kv. fst kv \<noteq> px \<and> fst kv \<noteq> py) fixed)
       ([px, py] @ map fst (filter (\<lambda>kv. fst kv \<noteq> px \<and> fst kv \<noteq> py) fixed)) ([px, py], [])
     = collect_params px py fixed ([px, py] @ map fst fixed) ([px, py], [])"
proof -
  let ?P = "\<lambda>p. p \<noteq> px \<and> p \<noteq> py"
  let ?fixed' = "filter (\<lambda>kv. ?P (fst kv)) fixed"
  have keys: "map fst ?fixed' = filter ?P (map fst fixed)"
    by (simp add: filter_map comp_def)
  have vals: "map (\<lambda>p. the (map_of ?fixed' p)) (filter ?P (map fst fixed))
              = map (\<lambda>p. the (map_of fixed p)) (filter ?P (map fst fixed))"
    by (rule map_cong) (auto simp: map_of_filter_fst [where P = "\<lambda>p. p \<noteq> px \<and> p \<noteq> py"])
  have "collect_params px py ?fixed' ([px, py] @ map fst ?fixed') ([px, py], [])
          = Inr ([px, py] @ filter ?P (map fst ?fixed'),
                 map (\<lambda>p. the (map_of ?fixed' p)) (filter ?P (map fst ?fixed')))"
    by (rule collect_params_all)
  also have "\<dots> = Inr ([px, py] @ filter ?P (map fst fixed),
                       map (\<lambda>p. the (map_of fixed p)) (filter ?P (map fst fixed)))"
    unfolding keys using vals by simp
  also have "\<dots> = collect_params px py fixed ([px, py] @ map fst fixed) ([px, py], [])"
    by (rule collect_params_all [symmetric])
  finally show ?thesis .
qed

lemma sample_plane_ignores_axes:
  "sample_plane func px py xr yr (filter (\<lambda>kv. fst kv \<noteq> px \<and> fst kv \<noteq> py) fixed) res
     = sample_plane func px py xr yr fixed res"
  unfolding sample_plane_def Let_def collect_params_ignores_axes ..

lemma get_numpy_func_ignores_fixed_axis:
  assumes "fixed_param ps = Some m" "distinct [x ps, y ps, z ps]"
  shows "\<exists>fn. get_numpy_func e ps = Inr fn \<and>
           (x ps \<in> fst ` set m \<longrightarrow> (\<forall>A A' B C. fn [A, B, C] = fn [A', B, C])) \<and>
           (y ps \<in> fst ` set m \<longrightarrow> (\<forall>A B B' C. fn [A, B, C] = fn [A, B', C])) \<and>
           (z ps \<in> fst ` set m \<longrightarrow> (\<forall>A B C C'. fn [A, B, C] = fn [A, B, C']))"
proof -
  let ?e = "subs_dict m e"
  let ?env = "\<lambda>A B C. map_of (zip [x ps, y ps, z ps] [A, B, C])"
  have gone: "s \<notin> fst ` set m" if "s \<in> free_symbols ?e" for s
    using that by (rule free_symbols_subs_dict)
  have "np_eval (?env A B C) ?e = np_eval (?env A' B C) ?e" if "x ps \<in> fst ` set m" for A A' B C
  proof (rule np_eval_cong)
    fix s assume "s \<in> free_symbols ?e"
    then have "s \<noteq> x ps" using gone that by blast
    then show "?env A B C s = ?env A' B C s" by simp
  qed
  moreover have "np_eval (?env A B C) ?e = np_eval (?env A B' C) ?e" if "y ps \<in> fst ` set m" for A B B' C
  proof (rule np_eval_cong)
    fix s assume "s \<in> free_symbols ?e"
    then have "s \<noteq> y ps" using gone that by blast
    then show "?env A B C s = ?env A B' C s" by simp
  qed
  moreover have "np_eval (?env A B C) ?e = np_eval (?env A B C') ?e" if "z ps \<in> fst ` set m" for A B C C'
  proof (rule np_eval_cong)
    fix s assume "s \<in> free_symbols ?e"
    then have "s \<noteq> z ps" using gone that by blast
    then show "?env A B C s = ?env A B C' s" by simp
  qed
  ultimately show ?thesis
    unfolding get_numpy_func_Some [OF assms, of e] by simp
qed

lemma unit_axis: "linspace 0 1 2 = Inr [0, 1]"
  by (simp add: linspace_def Let_def upt_rec numeral_nat)

text \<open>
  Claim C5 says that a symbol declared both as an axis and as a fixed parameter makes
  compilation and the planar extractor fail with an error of kind ConflictingParameter.
  Neither fails: the compiler substitutes the fixed value and returns a function, and the
  planar extractor skips the fixed entry and sweeps the symbol as an axis.
\<close>

theorem conflicting_symbol_counterexample:
  "x conflicting_space \<in> fst ` set (the (fixed_param conflicting_space)) \<and>
   \<not> isl (get_numpy_func sum_example conflicting_space) \<and>
   projr (get_numpy_func sum_example conflicting_space)
       [np_scalar (PyFloat 5), np_scalar (PyFloat 1), np_scalar (PyFloat 0)]
     = Inr (Numeric (np_scalar (PyFloat 3))) \<and>
   plot_zero_contours example_contour sum_example ''a'' ''b'' (0, 1) (0, 1) [(''a'', PyFloat 2)] 2 [0]
     = ([Evaluated 4], Inr [0, 1, 1, 2])"
proof -
  have key: "x conflicting_space \<in> fst ` set (the (fixed_param conflicting_space))"
    by (simp add: conflicting_space_def new_ParamSpace3D_def)
  have sb: "subs_dict [(''a'', PyFloat 2)] sum_example = Poly [([], 2), ([''b''], 1)]"
    by (simp add: sum_example_def subs_term_def scalar_value_def collect_terms_def same_monomial_def)
  have terms: "collect_terms [([], 2), ([''b''], 1)] = [([], 2), ([''b''], 1)]"
    by (simp add: collect_terms_def same_monomial_def)
  have fn: "get_numpy_func sum_example conflicting_space
              = Inr (\<lambda>args. if length args \<noteq> length [''a'', ''b'', ''c''] then Inl TypeError
                             else np_eval (map_of (zip [''a'', ''b'', ''c''] args))
                                    (Poly [([], 2), ([''b''], 1)]))"
    by (simp add: conflicting_space_def new_ParamSpace3D_def get_numpy_func_def subs_def sb
        lambdify_def)
  have call: "projr (get_numpy_func sum_example conflicting_space)
                [np_scalar (PyFloat 5), np_scalar (PyFloat 1), np_scalar (PyFloat 0)]
              = Inr (Numeric (np_scalar (PyFloat 3)))"
    unfolding fn
    by (simp add: terms np_scalar_def np_number_def lookup_def np_op_def np_binop_def)
  have terms2: "collect_terms [([''a''], 1), ([''b''], 1)] = [([''a''], 1), ([''b''], 1)]"
    by (simp add: collect_terms_def same_monomial_def)
  have plane: "sample_plane sum_example ''a'' ''b'' (0, 1) (0, 1) [(''a'', PyFloat 2)] 2
                 = ([Evaluated 4],
                    Inr (fst (meshgrid_xy [0, 1] [0, 1]), snd (meshgrid_xy [0, 1] [0, 1]),
                         Numeric \<lparr> shape = [2, 2], is_complex = False, elems = [0, 1, 1, 2] \<rparr>))"
    by (simp add: sample_plane_def sum_example_def lambdify_def unit_axis meshgrid_xy_def terms2
        np_number_def lookup_def np_op_def np_binop_def Let_def)
  have "plot_zero_contours example_contour sum_example ''a'' ''b'' (0, 1) (0, 1)
          [(''a'', PyFloat 2)] 2 [0] = ([Evaluated 4], Inr [0, 1, 1, 2])"
    by (simp add: plot_zero_contours_def plane example_contour_def np_iscomplexobj_def)
  with key fn call show ?thesis by simp
qed

text \<open>
  Claim C5 as amended. For a parameter space with a dictionary of fixed parameters and three
  different axis symbols, the compiler returns a function for every expression, and for each
  axis symbol that is also a key of the dictionary the result of that function does not
  depend on the array passed for that axis (the fixed value has replaced the symbol). The
  planar extractor ignores every fixed parameter whose key is one of its two axis symbols:
  it behaves exactly as it does without those entries.
\<close>

theorem conflicting_symbol_is_not_rejected:
  assumes "fixed_param ps = Some m" "distinct [x ps, y ps, z ps]"
  shows "(\<exists>fn. get_numpy_func e ps = Inr fn \<and>
           (x ps \<in> fst ` set m \<longrightarrow> (\<forall>A A' B C. fn [A, B, C] = fn [A', B, C])) \<and>
           (y ps \<in> fst ` set m \<longrightarrow> (\<forall>A B B' C. fn [A, B, C] = fn [A, B', C])) \<and>
           (z ps \<in> fst ` set m \<longrightarrow> (\<forall>A B C C'. fn [A, B, C] = fn [A, B, C']))) \<and>
         plot_zero_contours ax_contour func param_x param_y xr yr fixed_params resolution levels
           = plot_zero_contours ax_contour func param_x param_y xr yr
               (filter (\<lambda>kv. fst kv \<noteq> param_x \<and> fst kv \<noteq> param_y) fixed_params) resolution levels"
  using get_numpy_func_ignores_fixed_axis [OF assms, of e]
  by (simp add: plot_zero_contours_def sample_plane_ignores_axes)

theorem conflicting_symbol_is_not_rejected_witness:
  "fixed_param all_fixed_space = Some [(''a'', PyFloat 2), (''b'', PyFloat 3), (''c'', PyFloat 4)] \<and>
   distinct [x all_fixed_space, y all_fixed_space, z all_fixed_space] \<and>
   x all_fixed_space \<in> fst ` set [(''a'', PyFloat 2), (''b'', PyFloat 3), (''c'', PyFloat 4)] \<and>
   y all_fixed_space \<in> fst ` set [(''a'', PyFloat 2), (''b'', PyFloat 3), (''c'', PyFloat 4)] \<and>
   z all_fixed_space \<in> fst ` set [(''a'', PyFloat 2), (''b'', PyFloat 3), (''c'', PyFloat 4)] \<and>
   (\<exists>fn. get_numpy_func sum_example all_fixed_space = Inr fn \<and>
      fn [np_scalar (PyFloat 5), zero_array, zero_array] = fn [zero_array, zero_array, zero_array] \<and>
      fn [zero_array, np_scalar (PyFloat 5), zero_array] = fn [zero_array, zero_array, zero_array] \<and>
      fn [zero_array, zero_array, np_scalar (PyFloat 5)] = fn [zero_array, zero_array, zero_array]) \<and>
   plot_zero_contours example_contour sum_example ''a'' ''b'' (0, 1) (0, 1) [(''a'', PyFloat 2)] 2 [0]
     = plot_zero_contours example_contour sum_example ''a'' ''b'' (0, 1) (0, 1) [] 2 [0]"
proof -
  let ?K = "fst ` set [(''a'', PyFloat 2), (''b'', PyFloat 3), (''c'', PyFloat 4)]"
  have h: "fixed_param all_fixed_space = Some [(''a'', PyFloat 2), (''b'', PyFloat 3), (''c'', PyFloat 4)]"
    "distinct [x all_fixed_space, y all_fixed_space, z all_fixed_space]"
    by (simp_all add: all_fixed_space_def new_ParamSpace3D_def)
  have k: "x all_fixed_space \<in> ?K" "y all_fixed_space \<in> ?K" "z all_fixed_space \<in> ?K"
    by (simp_all add: all_fixed_space_def new_ParamSpace3D_def)
  note T = conflicting_symbol_is_not_rejected [OF h, of sum_example example_contour sum_example
      "''a''" "''b''" "(0, 1)" "(0, 1)" "[(''a'', PyFloat 2)]" 2 "[0]"]
  from T [THEN conjunct1] obtain fn where fn: "get_numpy_func sum_example all_fixed_space = Inr fn"
    and ix: "x all_fixed_space \<in> ?K \<longrightarrow> (\<forall>A A' B C. fn [A, B, C] = fn [A', B, C])"
    and iy: "y all_fixed_space \<in> ?K \<longrightarrow> (\<forall>A B B' C. fn [A, B, C] = fn [A, B', C])"
    and iz: "z all_fixed_space \<in> ?K \<longrightarrow> (\<forall>A B C C'. fn [A, B, C] = fn [A, B, C'])"
    by (elim exE conjE)
  have e1: "fn [np_scalar (PyFloat 5), zero_array, zero_array] = fn [zero_array, zero_array, zero_array]"
    using ix [rule_format, OF k(1)] .
  have e2: "fn [zero_array, np_scalar (PyFloat 5), zero_array] = fn [zero_array, zero_array, zero_array]"
    using iy [rule_format, OF k(2)] .
  have e3: "fn [zero_array, zero_array, np_scalar (PyFloat 5)] = fn [zero_array, zero_array, zero_array]"
    using iz [rule_format, OF k(3)] .
  have ex: "\<exists>fn. get_numpy_func sum_example all_fixed_space = Inr fn \<and>
      fn [np_scalar (PyFloat 5), zero_array, zero_array] = fn [zero_array, zero_array, zero_array] \<and>
      fn [zero_array, np_scalar (PyFloat 5), zero_array] = fn [zero_array, zero_array, zero_array] \<and>
      fn [zero_array, zero_array, np_scalar (PyFloat 5)] = fn [zero_array, zero_array, zero_array]"
    using fn e1 e2 e3 by (intro exI [of _ fn] conjI)
  have flt: "filter (\<lambda>kv. fst kv \<noteq> ''a'' \<and> fst kv \<noteq> ''b'') [(''a'', PyFloat 2)] = []"
    by simp
  have pl: "plot_zero_contours example_contour sum_example ''a'' ''b'' (0, 1) (0, 1)
               [(''a'', PyFloat 2)] 2 [0]
             = plot_zero_contours example_contour sum_example ''a'' ''b'' (0, 1) (0, 1) [] 2 [0]"
    using T [THEN conjunct2] unfolding flt .
  show ?thesis using h k ex pl by (intro conjI)
qed

section \<open>Complex fields in the planar extractor\<close>

lemma sample_plane_events:
  "sample_plane func px py xr yr fixed res = (evs, r) \<Longrightarrow> PrintedWarning \<notin> set evs"
  by (auto simp: sample_plane_def Let_def split: sum.splits prod.splits)

lemma sample_plane_complex_example:
  "\<exists>X Y Z. sample_plane complex_example ''a'' ''b'' (- 5, 5) (- 5, 5) [] 2
             = ([Evaluated 4], Inr (X, Y, Z)) \<and> np_iscomplexobj Z \<and>
           example_contour X Y (np_real Z) [0] = Inr [- 6, 4, - 6, 4] \<and>
           example_contour X Y (np_imag Z) [0] = Inr [- 6, - 6, 4, 4]"
proof -
  have axis: "linspace (- 5) 5 2 = Inr [- 5, 5]"
    by (simp add: linspace_def Let_def upt_rec numeral_nat)
  have terms: "collect_terms [([''a''], 1), ([''b''], \<i>), ([], Complex (- 1) (- 1))]
                 = [([''a''], 1), ([''b''], \<i>), ([], Complex (- 1) (- 1))]"
    by (simp add: collect_terms_def same_monomial_def complex_eq_iff)
  show ?thesis
    by (simp add: sample_plane_def complex_example_def lambdify_def axis meshgrid_xy_def terms
        np_number_def lookup_def np_op_def np_binop_def np_iscomplexobj_def np_real_def np_imag_def
        example_contour_def Let_def)
qed

text \<open>
  Claim C6. Whenever the planar extractor has sampled a field \<open>Z\<close> over its grid, it goes on
  to contouring: if \<open>Z\<close> is complex it prints the warning once, after the sampling, and
  contours the real part of \<open>Z\<close>; if \<open>Z\<close> is real it prints no warning and contours \<open>Z\<close>
  itself. Its result is then whatever the contouring returns.
\<close>

theorem complex_field_is_narrowed_with_warning:
  assumes "sample_plane func param_x param_y xr yr fixed_params resolution = (evs, Inr (X, Y, Z))"
  shows "PrintedWarning \<notin> set evs \<and>
         plot_zero_contours ax_contour func param_x param_y xr yr fixed_params resolution levels
           = (if np_iscomplexobj Z
              then (evs @ [PrintedWarning], ax_contour X Y (np_real Z) levels)
              else (evs, ax_contour X Y Z levels))"
  using assms sample_plane_events [OF assms] by (simp add: plot_zero_contours_def)

theorem complex_field_is_narrowed_with_warning_witness:
  "\<exists>X Y Z. sample_plane complex_example ''a'' ''b'' (- 5, 5) (- 5, 5) [] 2
             = ([Evaluated 4], Inr (X, Y, Z)) \<and> np_iscomplexobj Z \<and>
           example_contour X Y (np_imag Z) [0] = Inr [- 6, - 6, 4, 4] \<and>
           plot_zero_contours example_contour complex_example ''a'' ''b'' (- 5, 5) (- 5, 5) [] 2 [0]
             = ([Evaluated 4, PrintedWarning], Inr [- 6, 4, - 6, 4])"
proof -
  from sample_plane_complex_example obtain X Y Z
    where sp: "sample_plane complex_example ''a'' ''b'' (- 5, 5) (- 5, 5) [] 2
                 = ([Evaluated 4], Inr (X, Y, Z))"
      and c: "np_iscomplexobj Z"
      and re: "example_contour X Y (np_real Z) [0] = Inr [- 6, 4, - 6, 4]"
      and im: "example_contour X Y (np_imag Z) [0] = Inr [- 6, - 6, 4, 4]"
    by auto
  from complex_field_is_narrowed_with_warning [OF sp, of example_contour "[0]"] c re
  have "plot_zero_contours example_contour complex_example ''a'' ''b'' (- 5, 5) (- 5, 5) [] 2 [0]
          = ([Evaluated 4, PrintedWarning], Inr [- 6, 4, - 6, 4])"
    by simp
  with sp c im show ?thesis
    by (intro exI [of _ X] exI [of _ Y] exI [of _ Z]) simp
qed

end
